theory Spec2Isabelle
  imports Main "HOL-Library.Multiset"
begin

section \<open>Python strings and path helpers\<close>

text \<open>
  Strings are lists of characters. \<open>str.lower\<close> is modelled on the ASCII letters, which are
  the only characters whose lowercase form can occur in the literals the service compares
  with (\<open>obj\<close>, \<open>true\<close> and the four image extensions).
\<close>

definition lower_char :: "char \<Rightarrow> char" where
  "lower_char c =
     (case map_of (zip ''ABCDEFGHIJKLMNOPQRSTUVWXYZ'' ''abcdefghijklmnopqrstuvwxyz'') c of
        Some d \<Rightarrow> d
      | None \<Rightarrow> c)"

definition py_lower :: "string \<Rightarrow> string" where
  "py_lower s = map lower_char s"

text \<open>\<open>s.endswith(suf)\<close>.\<close>

definition endswith :: "string \<Rightarrow> string \<Rightarrow> bool" where
  "endswith s suf = (length suf \<le> length s \<and> drop (length s - length suf) s = suf)"

text \<open>\<open>s.split(sep)\<close> for a one-character separator: never the empty list.\<close>

fun py_split :: "char \<Rightarrow> string \<Rightarrow> string list" where
  "py_split sep [] = [[]]"
| "py_split sep (c # cs) =
     (if c = sep then [] # py_split sep cs
      else (c # hd (py_split sep cs)) # tl (py_split sep cs))"

text \<open>\<open>s.rsplit(sep, 1)\<close>: one piece when \<open>sep\<close> does not occur, otherwise the text before
  the last \<open>sep\<close> and the text after it.\<close>

definition py_rsplit1 :: "char \<Rightarrow> string \<Rightarrow> string list" where
  "py_rsplit1 sep s =
     (if sep \<in> set s
      then [rev (drop 1 (dropWhile (\<lambda>c. c \<noteq> sep) (rev s))), rev (takeWhile (\<lambda>c. c \<noteq> sep) (rev s))]
      else [s])"

text \<open>\<open>s.replace(old, new)\<close>: every non-overlapping occurrence, scanning from the left.\<close>

function py_replace :: "string \<Rightarrow> string \<Rightarrow> string \<Rightarrow> string" where
  "py_replace old new s =
     (if old = [] then new @ concat (map (\<lambda>c. c # new) s)
      else if s = [] then []
      else if take (length old) s = old then new @ py_replace old new (drop (length old) s)
      else hd s # py_replace old new (tl s))"
  by pat_completeness auto
termination
  by (relation "measure (\<lambda>(old, new, s). length s)") auto

text \<open>\<open>os.path.basename\<close> and \<open>os.path.splitext\<close> (posixpath): the extension starts at the
  last dot of the last path component, unless only dots precede it there.\<close>

definition py_basename :: "string \<Rightarrow> string" where
  "py_basename p = rev (takeWhile (\<lambda>c. c \<noteq> CHR ''/'') (rev p))"

definition py_splitext :: "string \<Rightarrow> string \<times> string" where
  "py_splitext p =
     (let fname = py_basename p;
          stem = rev (drop 1 (dropWhile (\<lambda>c. c \<noteq> CHR ''.'') (rev fname)));
          ext = rev (takeWhile (\<lambda>c. c \<noteq> CHR ''.'') (rev fname))
      in if CHR ''.'' \<in> set fname \<and> list_ex (\<lambda>c. c \<noteq> CHR ''.'') stem
         then (take (length p - length ext - 1) p, drop (length p - length ext - 1) p)
         else (p, []))"

section \<open>Values, exceptions, responses\<close>

text \<open>
  Python values as they occur in form fields, JSON bodies and response bodies. The type
  parameter \<open>'f\<close> is the carrier of Python floats: the service never computes with a float,
  it only passes floats on and orders creation times.
\<close>

datatype 'f pyval =
    VNone
  | VBool bool
  | VInt int
  | VFloat 'f
  | VStr string
  | VList "'f pyval list"
  | VDict "(string \<times> 'f pyval) list"

text \<open>\<open>d.get(k, dflt)\<close> on a dict (and on werkzeug's form \<open>MultiDict\<close>, whose \<open>get\<close>
  returns the first value of the key).\<close>

definition dict_get :: "(string \<times> 'a) list \<Rightarrow> string \<Rightarrow> 'a \<Rightarrow> 'a" where
  "dict_get d k dflt = (case map_of d k of Some v \<Rightarrow> v | None \<Rightarrow> dflt)"

text \<open>
  Exceptions: the interpreter's own classes that the handlers can raise, and \<open>Raised msg\<close>
  for an exception that comes out of a library call (werkzeug, requests, gradio_client,
  shutil, trimesh, the operating system) with its message.
\<close>

datatype exn =
    ValueError
  | TypeError
  | AttributeError
  | KeyError
  | UnboundLocalError
  | FileExistsError
  | NotADirectoryError
  | IsADirectoryError
  | Raised string

text \<open>
  What a view function hands back to Flask: \<open>jsonify(body), status\<close>; \<open>send_file\<close> of a path
  below the output folder with its download name; an exception that escapes the view
  (Flask then answers 500 with its own error page, not with a JSON body); or an abort
  that Flask raises with an HTTP status while it reads the request (\<open>request.files\<close>,
  \<open>request.get_json()\<close>).
\<close>

datatype 'f response =
    Json nat "(string \<times> 'f pyval) list"
  | Attachment "string list" string
  | Unhandled exn
  | Abort nat

section \<open>The two folders\<close>

text \<open>
  The upload folder holds regular files only; it is the set of their names. The output
  folder is the list of its entries in the order \<open>os.listdir\<close> reports them; an entry is a
  regular file or a directory with the names \<open>os.listdir\<close> reports for it, and carries the
  creation time \<open>os.path.getctime\<close> returns. Both folders lie in the folder of \<open>app.py\<close>,
  which the path \<open>..\<close> below the output folder names; of it only the names and kinds of
  the entries matter, again in the order of \<open>os.listdir\<close>.
\<close>

datatype kind = RegularFile | Directory "string list"

datatype 'f dirent = Dirent (d_name: string) (d_ctime: 'f) (d_kind: kind)

record 'f filesystem =
  uploads :: "string set"
  outputs :: "'f dirent list"
  app_folder :: "(string \<times> kind) list"

definition find_entry :: "string \<Rightarrow> 'f dirent list \<Rightarrow> 'f dirent option" where
  "find_entry n outs = find (\<lambda>e. d_name e = n) outs"

definition put_entry :: "'f dirent \<Rightarrow> 'f dirent list \<Rightarrow> 'f dirent list" where
  "put_entry e outs =
     (case find_entry (d_name e) outs of
        None \<Rightarrow> outs @ [e]
      | Some _ \<Rightarrow> map (\<lambda>x. if d_name x = d_name e then e else x) outs)"

section \<open>The collaborators outside the repository\<close>

text \<open>The keyword arguments of \<open>client.predict\<close> that vary (the four \<open>mv_image\<close> arguments are
  always \<open>None\<close> and \<open>api_name\<close> is fixed).\<close>

record 'f predict_args =
  image :: string
  steps :: "'f pyval"
  guidance_scale :: "'f pyval"
  seed :: "'f pyval"
  octree_resolution :: "'f pyval"
  check_box_rembg :: "'f pyval"
  num_chunks :: "'f pyval"
  randomize_seed :: "'f pyval"

text \<open>
  Everything one request obtains from outside the repository's code: the job ID drawn by
  \<open>uuid.uuid4()\<close>, werkzeug's \<open>secure_filename\<close>, the builtins \<open>int\<close> and \<open>float\<close> on strings
  (\<open>None\<close> is \<open>ValueError\<close>), the text \<open>str(e)\<close> of an exception and the \<open>repr\<close> of the set of
  allowed extensions, and for every library call whether it raises: \<open>file.save\<close>,
  \<open>requests.get\<close> with \<open>raise_for_status\<close>, \<open>open\<close> and \<open>write\<close> of the staged download,
  \<open>Client(...)\<close>, \<open>handle_file\<close>, \<open>client.predict(...)[0]\<close>, \<open>shutil.copy\<close>, \<open>trimesh.load\<close> and
  \<open>scene.export\<close>. \<open>file.save\<close> opens the destination and copies the upload into it: it
  returns, or it raises before the destination exists, or it raises after it has created
  the destination. A successful export names the companion files it wrote (materials,
  textures) as \<open>os.listdir\<close> will report them before and after the OBJ file. \<open>clock\<close> is the
  creation time the filesystem gives to what the request writes.
\<close>

datatype save_outcome = Saved | RaisedBeforeCreate exn | RaisedAfterCreate exn

record 'f env =
  uuid4 :: string
  secure_filename :: "string \<Rightarrow> string"
  repr_allowed :: string
  int_of_str :: "string \<Rightarrow> int option"
  float_of_str :: "string \<Rightarrow> 'f option"
  float_of_int :: "int \<Rightarrow> 'f"
  exn_text :: "exn \<Rightarrow> string"
  save_result :: save_outcome
  http_get_fails :: "'f pyval \<Rightarrow> exn option"
  open_fails :: "exn option"
  write_fails :: "exn option"
  client_fails :: "exn option"
  handle_file_fails :: "exn option"
  predict :: "'f predict_args \<Rightarrow> exn + string"
  copy_fails :: "exn option"
  load_fails :: "exn option"
  export_result :: "exn + (string list \<times> string list)"
  clock :: 'f

text \<open>What a request did, in order: a file created in the upload folder, a call of the
  remote model, a call of the converter, a file removed from the upload folder.\<close>

datatype 'f event =
    Staged string
  | Predict "'f predict_args"
  | Convert string
  | Removed string

section \<open>Configuration and helpers of \<open>app.py\<close>\<close>

definition ALLOWED_EXTENSIONS :: "string set" where
  "ALLOWED_EXTENSIONS = {''png'', ''jpg'', ''jpeg'', ''webp''}"

definition allowed_file :: "string \<Rightarrow> bool" where
  "allowed_file filename =
     (CHR ''.'' \<in> set filename \<and>
      py_lower (py_rsplit1 (CHR ''.'') filename ! 1) \<in> ALLOWED_EXTENSIONS)"

definition fetch_3d_from_image ::
  "'f env \<Rightarrow> string \<Rightarrow> (string \<times> 'f pyval) list \<Rightarrow> (exn + string) \<times> 'f event list" where
  "fetch_3d_from_image env image_path params =
     (case client_fails env of
        Some e \<Rightarrow> (Inl e, [])
      | None \<Rightarrow>
          (case handle_file_fails env of
             Some e \<Rightarrow> (Inl e, [])
           | None \<Rightarrow>
          (let args = \<lparr>image = image_path,
                        steps = dict_get params ''steps'' (VInt 30),
                        guidance_scale = dict_get params ''guidance_scale'' (VInt 5),
                        seed = dict_get params ''seed'' (VInt 1234),
                        octree_resolution = dict_get params ''octree_resolution'' (VInt 256),
                        check_box_rembg = dict_get params ''remove_background'' (VBool True),
                        num_chunks = dict_get params ''num_chunks'' (VInt 8000),
                        randomize_seed = dict_get params ''randomize_seed'' (VBool True)\<rparr>
           in (predict env args, [Predict args]))))"

text \<open>\<open>os.makedirs(path, exist_ok=True)\<close> for a name directly below the output folder.\<close>

definition makedirs :: "'f env \<Rightarrow> string \<Rightarrow> 'f dirent list \<Rightarrow> exn + 'f dirent list" where
  "makedirs env n outs =
     (case find_entry n outs of
        None \<Rightarrow> Inr (outs @ [Dirent n (clock env) (Directory [])])
      | Some e \<Rightarrow> (case d_kind e of RegularFile \<Rightarrow> Inl FileExistsError | Directory ns \<Rightarrow> Inr outs))"

text \<open>\<open>scene.export(obj_path)\<close> into the directory \<open>n\<close>: the OBJ file and its companions; names
  that were there before and are not rewritten stay.\<close>

definition export_into ::
  "'f env \<Rightarrow> string \<Rightarrow> string \<Rightarrow> string list \<times> string list \<Rightarrow> 'f dirent list \<Rightarrow> 'f dirent list" where
  "export_into env n obj written outs =
     map (\<lambda>e. if d_name e = n
              then (case d_kind e of
                      RegularFile \<Rightarrow> e
                    | Directory ns \<Rightarrow>
                        (let new = fst written @ [obj] @ snd written
                         in Dirent n (clock env) (Directory (new @ filter (\<lambda>x. x \<notin> set new) ns))))
              else e) outs"

definition convert_glb_to_obj ::
  "'f env \<Rightarrow> string \<Rightarrow> 'f dirent list \<Rightarrow> (exn + string list) \<times> 'f dirent list" where
  "convert_glb_to_obj env glb_path outs =
     (let base_name = fst (py_splitext (py_basename glb_path)) in
      case makedirs env base_name outs of
        Inl e \<Rightarrow> (Inl e, outs)
      | Inr outs1 \<Rightarrow>
          (case load_fails env of
             Some e \<Rightarrow> (Inl e, outs1)
           | None \<Rightarrow>
               (case export_result env of
                  Inl e \<Rightarrow> (Inl e, outs1)
                | Inr written \<Rightarrow>
                    (Inr [base_name, base_name @ ''.obj''],
                     export_into env base_name (base_name @ ''.obj'') written outs1))))"

text \<open>\<open>shutil.copy(glb_path, output_glb_path)\<close> with the destination named \<open>dst\<close> in the
  output folder: a new or rewritten regular file, or, when \<open>dst\<close> is a directory, a file
  inside it named after the source.\<close>

definition shutil_copy :: "'f env \<Rightarrow> string \<Rightarrow> string \<Rightarrow> 'f dirent list \<Rightarrow> exn + 'f dirent list" where
  "shutil_copy env src dst outs =
     (case copy_fails env of
        Some e \<Rightarrow> Inl e
      | None \<Rightarrow>
          Inr (case find_entry dst outs of
                 None \<Rightarrow> put_entry (Dirent dst (clock env) RegularFile) outs
               | Some e \<Rightarrow>
                   (case d_kind e of
                      RegularFile \<Rightarrow> put_entry (Dirent dst (clock env) RegularFile) outs
                    | Directory ns \<Rightarrow>
                        put_entry (Dirent dst (clock env)
                          (Directory (py_basename src # filter (\<lambda>x. x \<noteq> py_basename src) ns))) outs)))"

section \<open>The generation steps shared by both generate handlers\<close>

text \<open>
  Lines 133 to 152 of \<open>generate_3d_model\<close> and lines 209 to 227 of \<open>generate_from_url\<close> are
  the same statements: call the remote model, copy the GLB to \<open>{job_id}.glb\<close>, build the
  response dict, convert when \<open>output_format == "obj"\<close>. The result is the exception raised
  or the dict passed to \<open>jsonify\<close>.
\<close>

definition generation_steps ::
  "'f env \<Rightarrow> string \<Rightarrow> (string \<times> 'f pyval) list \<Rightarrow> string \<Rightarrow> string \<Rightarrow> 'f dirent list \<Rightarrow>
     (exn + (string \<times> 'f pyval) list) \<times> 'f dirent list \<times> 'f event list" where
  "generation_steps env image_path params job_id output_format outs =
     (case fetch_3d_from_image env image_path params of
        (Inl e, evs) \<Rightarrow> (Inl e, outs, evs)
      | (Inr glb_path, evs) \<Rightarrow>
          (case shutil_copy env glb_path (job_id @ ''.glb'') outs of
             Inl e \<Rightarrow> (Inl e, outs, evs)
           | Inr outs1 \<Rightarrow>
               (let response = [(''job_id'', VStr job_id),
                                (''status'', VStr ''completed''),
                                (''glb_url'', VStr (''/api/download/'' @ job_id @ ''/glb''))]
                in if output_format = ''obj''
                   then (case convert_glb_to_obj env (job_id @ ''.glb'') outs1 of
                           (Inl e, outs2) \<Rightarrow> (Inl e, outs2, evs @ [Convert (job_id @ ''.glb'')])
                         | (Inr obj_path, outs2) \<Rightarrow>
                             (Inr (response @ [(''obj_url'', VStr (''/api/download/'' @ job_id @ ''/obj''))]),
                              outs2, evs @ [Convert (job_id @ ''.glb'')]))
                   else (Inr response, outs1, evs))))"

text \<open>The \<open>finally\<close> block of both handlers: remove the staged file if it exists.
  \<open>os.remove\<close> of a regular file in the upload folder succeeds.\<close>

definition cleanup :: "string \<Rightarrow> string set \<Rightarrow> string set \<times> 'f event list" where
  "cleanup image_path ups =
     (if image_path \<in> ups then (ups - {image_path}, [Removed image_path]) else (ups, []))"

section \<open>\<open>POST /api/generate\<close>\<close>

text \<open>
  An upload request: the filename of the part named \<open>file\<close> (\<open>None\<close> when
  \<open>request.files\<close> has no such part) and the form fields. Paths in the upload folder are
  written as the file's name there, paths in the output folder as the names below it.
  \<open>body_size\<close> is the length of the request body in bytes: line 28 sets
  \<open>MAX_CONTENT_LENGTH\<close>, and Flask aborts with 413 when the handler first reads
  \<open>request.files\<close> (line 102) of a longer body.
\<close>

record upload_request =
  body_size :: nat
  file_part :: "string option"
  form_fields :: "(string \<times> string) list"

definition MAX_CONTENT_LENGTH :: nat where
  "MAX_CONTENT_LENGTH = 16 * 1024 * 1024"

text \<open>\<open>int(request.form.get(k, dflt))\<close> and \<open>float(request.form.get(k, dflt))\<close>: a form value
  is a string, the default is the integer literal of the source.\<close>

definition form_int :: "'f env \<Rightarrow> (string \<times> string) list \<Rightarrow> string \<Rightarrow> int \<Rightarrow> exn + int" where
  "form_int env fm k dflt =
     (case map_of fm k of
        None \<Rightarrow> Inr dflt
      | Some s \<Rightarrow> (case int_of_str env s of None \<Rightarrow> Inl ValueError | Some n \<Rightarrow> Inr n))"

definition form_float :: "'f env \<Rightarrow> (string \<times> string) list \<Rightarrow> string \<Rightarrow> int \<Rightarrow> exn + 'f" where
  "form_float env fm k dflt =
     (case map_of fm k of
        None \<Rightarrow> Inr (float_of_int env dflt)
      | Some s \<Rightarrow> (case float_of_str env s of None \<Rightarrow> Inl ValueError | Some x \<Rightarrow> Inr x))"

text \<open>The \<open>params\<close> dict literal of lines 124 to 130, evaluated entry by entry.\<close>

definition parse_form_params ::
  "'f env \<Rightarrow> (string \<times> string) list \<Rightarrow> exn + (string \<times> 'f pyval) list" where
  "parse_form_params env fm =
     (case form_int env fm ''steps'' 30 of
        Inl e \<Rightarrow> Inl e
      | Inr st \<Rightarrow>
          (case form_float env fm ''guidance_scale'' 5 of
             Inl e \<Rightarrow> Inl e
           | Inr gs \<Rightarrow>
               (case form_int env fm ''seed'' 1234 of
                  Inl e \<Rightarrow> Inl e
                | Inr sd \<Rightarrow>
                    Inr [(''steps'', VInt st),
                         (''guidance_scale'', VFloat gs),
                         (''seed'', VInt sd),
                         (''remove_background'',
                            VBool (py_lower (dict_get fm ''remove_background'' ''true'') = ''true'')),
                         (''randomize_seed'',
                            VBool (py_lower (dict_get fm ''randomize_seed'' ''true'') = ''true''))])))"

text \<open>The body of the \<open>try\<close> block.\<close>

definition upload_try ::
  "'f env \<Rightarrow> (string \<times> string) list \<Rightarrow> string \<Rightarrow> string \<Rightarrow> 'f dirent list \<Rightarrow>
     (exn + (string \<times> 'f pyval) list) \<times> 'f dirent list \<times> 'f event list" where
  "upload_try env fm job_id image_path outs =
     (case parse_form_params env fm of
        Inl e \<Rightarrow> (Inl e, outs, [])
      | Inr params \<Rightarrow>
          generation_steps env image_path params job_id
            (py_lower (dict_get fm ''output_format'' ''glb'')) outs)"

definition upload_error_body :: "'f env \<Rightarrow> exn \<Rightarrow> (string \<times> 'f pyval) list" where
  "upload_error_body env e =
     [(''error'', VStr (exn_text env e)),
      (''message'', VStr ''Generation failed. The Hugging Face Space may be overloaded.''),
      (''fallback_url'', VStr ''https://huggingface.co/spaces/tencent/Hunyuan3D-2.1'')]"

text \<open>The \<open>except\<close> and \<open>finally\<close> blocks, applied to the outcome of the \<open>try\<close> block: the
  response, and the removal of the staged file.\<close>

definition upload_finish ::
  "'f env \<Rightarrow> string \<Rightarrow> 'f filesystem \<Rightarrow>
     (exn + (string \<times> 'f pyval) list) \<times> 'f dirent list \<times> 'f event list \<Rightarrow>
     'f response \<times> 'f filesystem \<times> 'f event list" where
  "upload_finish env image_path fs0 t =
     (case t of
        (r, outs1, evs) \<Rightarrow>
          (case cleanup image_path (uploads fs0) of
             (ups1, cev) \<Rightarrow>
               ((case r of
                   Inr body \<Rightarrow> Json 200 body
                 | Inl e \<Rightarrow> Json 500 (upload_error_body env e)),
                fs0\<lparr>uploads := ups1, outputs := outs1\<rparr>,
                evs @ cev)))"

definition generate_3d_model ::
  "'f env \<Rightarrow> upload_request \<Rightarrow> 'f filesystem \<Rightarrow> 'f response \<times> 'f filesystem \<times> 'f event list" where
  "generate_3d_model env req fs =
     (if MAX_CONTENT_LENGTH < body_size req then (Abort 413, fs, [])
      else
      case file_part req of
        None \<Rightarrow> (Json 400 [(''error'', VStr ''No file provided'')], fs, [])
      | Some filename \<Rightarrow>
          if filename = [] then (Json 400 [(''error'', VStr ''No file selected'')], fs, [])
          else if \<not> allowed_file filename
          then (Json 400 [(''error'', VStr (''File type not allowed. Allowed: '' @ repr_allowed env))],
                fs, [])
          else
            (let job_id = uuid4 env;
                 unique_filename = job_id @ ''_'' @ secure_filename env filename
             in case save_result env of
                  RaisedBeforeCreate e \<Rightarrow> (Unhandled e, fs, [])
                | RaisedAfterCreate e \<Rightarrow>
                    (Unhandled e, fs\<lparr>uploads := insert unique_filename (uploads fs)\<rparr>,
                     [Staged unique_filename])
                | Saved \<Rightarrow>
                    (case upload_finish env unique_filename
                            (fs\<lparr>uploads := insert unique_filename (uploads fs)\<rparr>)
                            (upload_try env (form_fields req) job_id unique_filename (outputs fs)) of
                       (resp, fs1, evs) \<Rightarrow> (resp, fs1, Staged unique_filename # evs))))"

section \<open>\<open>POST /api/generate/url\<close>\<close>

text \<open>Truth value of a Python value, \<open>k in v\<close> for a string \<open>k\<close>, and substring test.\<close>

definition truthy :: "'f::zero pyval \<Rightarrow> bool" where
  "truthy v =
     (case v of
        VNone \<Rightarrow> False
      | VBool b \<Rightarrow> b
      | VInt n \<Rightarrow> n \<noteq> 0
      | VFloat x \<Rightarrow> x \<noteq> 0
      | VStr s \<Rightarrow> s \<noteq> []
      | VList xs \<Rightarrow> xs \<noteq> []
      | VDict d \<Rightarrow> d \<noteq> [])"

fun is_substring :: "string \<Rightarrow> string \<Rightarrow> bool" where
  "is_substring k [] = (k = [])"
| "is_substring k (c # cs) = (take (length k) (c # cs) = k \<or> is_substring k cs)"

definition contains :: "string \<Rightarrow> 'f pyval \<Rightarrow> exn + bool" where
  "contains k v =
     (case v of
        VDict d \<Rightarrow> Inr (map_of d k \<noteq> None)
      | VList xs \<Rightarrow> Inr (VStr k \<in> set xs)
      | VStr s \<Rightarrow> Inr (is_substring k s)
      | _ \<Rightarrow> Inl TypeError)"

text \<open>\<open>v[k]\<close> for a string \<open>k\<close>.\<close>

definition subscript :: "'f pyval \<Rightarrow> string \<Rightarrow> exn + 'f pyval" where
  "subscript v k =
     (case v of
        VDict d \<Rightarrow> (case map_of d k of Some x \<Rightarrow> Inr x | None \<Rightarrow> Inl KeyError)
      | _ \<Rightarrow> Inl TypeError)"

text \<open>\<open>data.get(k, dflt)\<close>; only a dict reaches the calls.\<close>

definition data_get :: "'f pyval \<Rightarrow> string \<Rightarrow> 'f pyval \<Rightarrow> 'f pyval" where
  "data_get data k dflt = (case data of VDict d \<Rightarrow> dict_get d k dflt | _ \<Rightarrow> dflt)"

text \<open>Lines 191 to 193: the extension of the staged file.\<close>

definition url_ext :: "string \<Rightarrow> string" where
  "url_ext image_url =
     (let ext = take 4 (hd (py_split (CHR ''?'') (last (py_split (CHR ''.'') image_url))))
      in if ext \<notin> ALLOWED_EXTENSIONS then ''jpg'' else ext)"

text \<open>The \<open>params\<close> dict literal of lines 200 to 206.\<close>

definition parse_json_params :: "'f pyval \<Rightarrow> (string \<times> 'f pyval) list" where
  "parse_json_params data =
     [(''steps'', data_get data ''steps'' (VInt 30)),
      (''guidance_scale'', data_get data ''guidance_scale'' (VInt 5)),
      (''seed'', data_get data ''seed'' (VInt 1234)),
      (''remove_background'', data_get data ''remove_background'' (VBool True)),
      (''randomize_seed'', data_get data ''randomize_seed'' (VBool True))]"

text \<open>
  The body of the \<open>try\<close> block, lines 185 to 227. Besides the outcome it returns the local
  variable \<open>image_path\<close>: \<open>None\<close> while the assignment of line 195 has not run. A method
  call \<open>.split\<close> or \<open>.lower\<close> on a value that is not a string raises \<open>AttributeError\<close>.
\<close>

definition url_try ::
  "'f env \<Rightarrow> 'f pyval \<Rightarrow> 'f pyval \<Rightarrow> string \<Rightarrow> 'f filesystem \<Rightarrow>
     (exn + (string \<times> 'f pyval) list) \<times> string option \<times> 'f filesystem \<times> 'f event list" where
  "url_try env data image_url job_id fs =
     (case http_get_fails env image_url of
        Some e \<Rightarrow> (Inl e, None, fs, [])
      | None \<Rightarrow>
          (case image_url of
             VStr url \<Rightarrow>
               (let image_path = job_id @ ''.'' @ url_ext url
                in case open_fails env of
                     Some e \<Rightarrow> (Inl e, Some image_path, fs, [])
                   | None \<Rightarrow>
                       (let fs1 = fs\<lparr>uploads := insert image_path (uploads fs)\<rparr> in
                        case write_fails env of
                          Some e \<Rightarrow> (Inl e, Some image_path, fs1, [Staged image_path])
                        | None \<Rightarrow>
                            (case data_get data ''output_format'' (VStr ''glb'') of
                               VStr s \<Rightarrow>
                                 (case generation_steps env image_path (parse_json_params data) job_id
                                         (py_lower s) (outputs fs1) of
                                    (r, outs1, evs) \<Rightarrow>
                                      (r, Some image_path, fs1\<lparr>outputs := outs1\<rparr>,
                                       Staged image_path # evs))
                             | _ \<Rightarrow> (Inl AttributeError, Some image_path, fs1, [Staged image_path]))))
           | _ \<Rightarrow> (Inl AttributeError, None, fs, [])))"

definition url_error_body :: "'f env \<Rightarrow> exn \<Rightarrow> (string \<times> 'f pyval) list" where
  "url_error_body env e =
     [(''error'', VStr (exn_text env e)), (''message'', VStr ''Generation failed'')]"

text \<open>
  The \<open>except\<close> and \<open>finally\<close> blocks, applied to the outcome of the \<open>try\<close> block. The
  \<open>finally\<close> block reads \<open>image_path\<close>; when the variable is unbound the read raises
  \<open>UnboundLocalError\<close>, which replaces the response the \<open>except\<close> block had returned.
\<close>

definition url_finish ::
  "'f env \<Rightarrow>
     (exn + (string \<times> 'f pyval) list) \<times> string option \<times> 'f filesystem \<times> 'f event list \<Rightarrow>
     'f response \<times> 'f filesystem \<times> 'f event list" where
  "url_finish env t =
     (case t of
        (r, image_path, fs1, evs) \<Rightarrow>
          (case image_path of
             None \<Rightarrow> (Unhandled UnboundLocalError, fs1, evs)
           | Some p \<Rightarrow>
               (case cleanup p (uploads fs1) of
                  (ups1, cev) \<Rightarrow>
                    ((case r of
                        Inr b \<Rightarrow> Json 200 b
                      | Inl e \<Rightarrow> Json 500 (url_error_body env e)),
                     fs1\<lparr>uploads := ups1\<rparr>,
                     evs @ cev))))"

text \<open>The handler. Its argument is what \<open>request.get_json()\<close> gives: an abort with an HTTP
  status, or the parsed body.\<close>

definition generate_from_url ::
  "'f::zero env \<Rightarrow> nat + 'f pyval \<Rightarrow> 'f filesystem \<Rightarrow> 'f response \<times> 'f filesystem \<times> 'f event list" where
  "generate_from_url env body fs =
     (case body of
        Inl status \<Rightarrow> (Abort status, fs, [])
      | Inr data \<Rightarrow>
          if \<not> truthy data then (Json 400 [(''error'', VStr ''image_url is required'')], fs, [])
          else
            (case contains ''image_url'' data of
               Inl e \<Rightarrow> (Unhandled e, fs, [])
             | Inr present \<Rightarrow>
                 if \<not> present then (Json 400 [(''error'', VStr ''image_url is required'')], fs, [])
                 else
                   (case subscript data ''image_url'' of
                      Inl e \<Rightarrow> (Unhandled e, fs, [])
                    | Inr image_url \<Rightarrow> url_finish env (url_try env data image_url (uuid4 env) fs))))"

section \<open>\<open>GET /api/download/<job_id>/<format>\<close>\<close>

text \<open>
  \<open>job_id\<close> is one segment of the request path. It names an entry of the output folder,
  except that \<open>os.path.join\<close> with \<open>.\<close> is the output folder itself and with \<open>..\<close> the folder
  of \<open>app.py\<close>. \<open>os.path.exists\<close> holds for a regular file and for a directory alike;
  \<open>os.listdir\<close> of a regular file raises \<open>NotADirectoryError\<close>, \<open>send_file\<close> of a directory
  raises \<open>IsADirectoryError\<close>. The entries of a job's subdirectory are regular files.
\<close>

abbreviation not_found :: "'f response" where
  "not_found \<equiv> Json 404 [(''error'', VStr ''File not found'')]"

text \<open>The loop of lines 253 to 259 over a folder whose entries have a kind.\<close>

definition send_first_obj :: "string \<Rightarrow> (string \<times> kind) list \<Rightarrow> 'f response" where
  "send_first_obj job_id entries =
     (case find (\<lambda>x. endswith (fst x) ''.obj'') entries of
        None \<Rightarrow> Json 404 [(''error'', VStr ''File not found'')]
      | Some x \<Rightarrow>
          (case snd x of
             RegularFile \<Rightarrow> Attachment [job_id, fst x] (job_id @ ''.obj'')
           | Directory ns \<Rightarrow> Unhandled IsADirectoryError))"

definition download_model :: "'f filesystem \<Rightarrow> string \<Rightarrow> string \<Rightarrow> 'f response" where
  "download_model fs job_id format =
     (if format = ''glb'' then
        (case find_entry (job_id @ ''.glb'') (outputs fs) of
           None \<Rightarrow> not_found
         | Some e \<Rightarrow>
             (case d_kind e of
                RegularFile \<Rightarrow> Attachment [job_id @ ''.glb''] (job_id @ ''.glb'')
              | Directory ns \<Rightarrow> Unhandled IsADirectoryError))
      else if format = ''obj'' then
        if job_id = ''.'' then send_first_obj job_id (map (\<lambda>e. (d_name e, d_kind e)) (outputs fs))
        else if job_id = ''..'' then send_first_obj job_id (app_folder fs)
        else
        (case find_entry job_id (outputs fs) of
           None \<Rightarrow> not_found
         | Some e \<Rightarrow>
             (case d_kind e of
                RegularFile \<Rightarrow> Unhandled NotADirectoryError
              | Directory ns \<Rightarrow>
                  (case find (\<lambda>f. endswith f ''.obj'') ns of
                     Some f \<Rightarrow> Attachment [job_id, f] (job_id @ ''.obj'')
                   | None \<Rightarrow> not_found)))
      else not_found)"

text \<open>Flask's dispatch of a GET on a path to the rule of line 240: two non-empty segments
  without a slash after \<open>/api/download/\<close>. Any other path is not this route.\<close>

definition route_download :: "string \<Rightarrow> (string \<times> string) option" where
  "route_download path =
     (case py_split (CHR ''/'') path of
        [a, b, c, job_id, format] \<Rightarrow>
          if a = [] \<and> b = ''api'' \<and> c = ''download'' \<and> job_id \<noteq> [] \<and> format \<noteq> []
          then Some (job_id, format) else None
      | _ \<Rightarrow> None)"

section \<open>\<open>GET /api/models\<close>\<close>

datatype 'f model = Model (m_job_id: string) (m_glb_url: string) (created_at: 'f)

text \<open>The loop of lines 269 to 276.\<close>

definition collect_models :: "'f dirent list \<Rightarrow> 'f model list" where
  "collect_models outs =
     map (\<lambda>e. let job_id = py_replace ''.glb'' [] (d_name e)
              in Model job_id (''/api/download/'' @ job_id @ ''/glb'') (d_ctime e))
       (filter (\<lambda>e. endswith (d_name e) ''.glb'') outs)"

text \<open>\<open>sorted(xs, key=key, reverse=True)\<close>: CPython reverses the list, sorts it stably in
  ascending order and reverses it again, so equal keys keep their order.\<close>

definition sorted_reverse :: "('a \<Rightarrow> 'k::linorder) \<Rightarrow> 'a list \<Rightarrow> 'a list" where
  "sorted_reverse key xs = rev (sort_key key (rev xs))"

definition model_json :: "'f model \<Rightarrow> 'f pyval" where
  "model_json m =
     VDict [(''job_id'', VStr (m_job_id m)),
            (''glb_url'', VStr (m_glb_url m)),
            (''created_at'', VFloat (created_at m))]"

definition list_models :: "'f::linorder filesystem \<Rightarrow> 'f response" where
  "list_models fs =
     (let models = collect_models (outputs fs)
      in Json 200 [(''models'', VList (map model_json (sorted_reverse created_at models))),
                   (''total'', VInt (int (length models)))])"

section \<open>Predicates that follow the specification's words, and example inputs\<close>

text \<open>
  The specification's rejection condition for an upload: no file part, an empty filename,
  or a filename whose extension (the text after the last dot, lowercased) is not one of
  png, jpg, jpeg, webp. A filename without a dot has no such text.
\<close>

definition upload_rejected_spec :: "upload_request \<Rightarrow> bool" where
  "upload_rejected_spec req =
     (case file_part req of
        None \<Rightarrow> True
      | Some filename \<Rightarrow>
          filename = [] \<or>
          \<not> (\<exists>pre ext. filename = pre @ ''.'' @ ext \<and> CHR ''.'' \<notin> set ext \<and>
                 py_lower ext \<in> {''png'', ''jpg'', ''jpeg'', ''webp''}))"

text \<open>
  The extension the specification speaks of for an image URL: the text after the last dot
  of the URL (the whole URL when it has no dot), up to the first question mark, cut to
  four characters.
\<close>

definition inferred_extension_spec :: "string \<Rightarrow> string" where
  "inferred_extension_spec url =
     take 4 (takeWhile (\<lambda>c. c \<noteq> CHR ''?'')
               (rev (takeWhile (\<lambda>c. c \<noteq> CHR ''.'') (rev url))))"

text \<open>
  The text of \<open>str(uuid.uuid4())\<close>: 32 lowercase hexadecimal digits in groups of 8, 4, 4, 4
  and 12, separated by hyphens.
\<close>

definition uuid_class :: "char \<Rightarrow> char" where
  "uuid_class c =
     (if c \<in> set ''0123456789abcdef'' then CHR ''h''
      else if c = CHR ''-'' then CHR ''-'' else CHR ''?'')"

definition uuid_shape :: "string \<Rightarrow> bool" where
  "uuid_shape s = (map uuid_class s = ''hhhhhhhh-hhhh-hhhh-hhhh-hhhhhhhhhhhh'')"

text \<open>An environment in which every library call succeeds, and the empty folders.\<close>

definition example_env :: "int env" where
  "example_env = \<lparr>uuid4 = ''3f2b8c1e-5d4a-4e6f-9a7b-0c1d2e3f4a5b'',
           secure_filename = (\<lambda>s. s), repr_allowed = ''{}'',
           int_of_str = (\<lambda>s. if s = ''7'' then Some 7 else None),
           float_of_str = (\<lambda>s. if s = ''6'' then Some 6 else None), float_of_int = (\<lambda>n. n),
           exn_text = (\<lambda>e. ''boom''), save_result = Saved,
           http_get_fails = (\<lambda>u. None), open_fails = None, write_fails = None,
           client_fails = None, handle_file_fails = None, predict = (\<lambda>a. Inr ''/tmp/gradio/out.glb''),
           copy_fails = None, load_fails = None, export_result = Inr ([''material.mtl''], []),
           clock = 100\<rparr>"

definition empty_fs :: "int filesystem" where
  "empty_fs = \<lparr>uploads = {}, outputs = [],
                app_folder = [(''app.py'', RegularFile), (''uploads'', Directory []),
                              (''output'', Directory [])]\<rparr>"

text \<open>An upload of \<open>cat.PNG\<close> that asks for OBJ output, seven steps, no background
  removal, an octree resolution of 512 and 4000 chunks; and an output folder with two
  models, a text file and a job subdirectory.\<close>

definition example_upload :: upload_request where
  "example_upload =
     \<lparr>body_size = 10240,
      file_part = Some ''cat.PNG'',
      form_fields = [(''output_format'', ''OBJ''), (''steps'', ''7''), (''remove_background'', ''False''),
                     (''octree_resolution'', ''512''), (''num_chunks'', ''4000'')]\<rparr>"

definition example_listing :: "int filesystem" where
  "example_listing =
     \<lparr>uploads = {},
      outputs = [Dirent ''a.glb'' 1 RegularFile,
                 Dirent ''notes.txt'' 5 RegularFile,
                 Dirent ''b.glb'' 2 RegularFile,
                 Dirent ''b'' 3 (Directory [''b.obj''])],
      app_folder = []\<rparr>"

text \<open>A URL request for a WebP image with \<open>steps\<close> given as a string and the output format
  \<open>STL\<close>; an upload that asks for \<open>stl\<close>; and an environment in which every download fails.\<close>

definition example_url_fields :: "(string \<times> int pyval) list" where
  "example_url_fields =
     [(''image_url'', VStr ''https://example.org/cat.webp?size=2''),
      (''steps'', VStr ''40''),
      (''output_format'', VStr ''STL'')]"

definition example_upload_stl :: upload_request where
  "example_upload_stl =
     \<lparr>body_size = 10240, file_part = Some ''cat.jpg'', form_fields = [(''output_format'', ''stl'')]\<rparr>"

definition offline_env :: "int env" where
  "offline_env = example_env\<lparr>http_get_fails := (\<lambda>u. Some (Raised ''Name or service not known''))\<rparr>"

text \<open>
  An upload without a file part whose body is one byte over the limit; an environment in
  which \<open>file.save\<close> raises after it has created the destination (the disk is full); and an
  upload that gives \<open>steps\<close>, \<open>guidance_scale\<close> and \<open>remove_background\<close> and leaves \<open>seed\<close> and
  \<open>randomize_seed\<close> out.
\<close>

definition oversized_upload :: upload_request where
  "oversized_upload = \<lparr>body_size = 16 * 1024 * 1024 + 1, file_part = None, form_fields = []\<rparr>"

definition disk_full_env :: "int env" where
  "disk_full_env = example_env\<lparr>save_result := RaisedAfterCreate (Raised ''No space left on device'')\<rparr>"

definition example_upload_params :: upload_request where
  "example_upload_params =
     \<lparr>body_size = 10240,
      file_part = Some ''cat.png'',
      form_fields = [(''steps'', ''7''), (''guidance_scale'', ''6''), (''remove_background'', ''False'')]\<rparr>"

text \<open>The calls of the remote model among the effects of a request, in order.\<close>

fun predict_calls :: "'f event list \<Rightarrow> 'f predict_args list" where
  "predict_calls [] = []"
| "predict_calls (Predict a # evs) = a # predict_calls evs"
| "predict_calls (e # evs) = predict_calls evs"

section \<open>Lemmas about the string helpers\<close>

lemma py_rsplit1_last:
  assumes "sep \<notin> set ext"
  shows "py_rsplit1 sep (pre @ sep # ext) = [pre, ext]"
proof -
  have all: "\<And>x. x \<in> set (rev ext) \<Longrightarrow> x \<noteq> sep" using assms by auto
  have t: "takeWhile (\<lambda>c. c \<noteq> sep) (rev ext @ sep # rev pre) = rev ext"
    using takeWhile_append2 [of "rev ext" "\<lambda>c. c \<noteq> sep" "sep # rev pre"] all by simp
  have d: "dropWhile (\<lambda>c. c \<noteq> sep) (rev ext @ sep # rev pre) = sep # rev pre"
    using dropWhile_append2 [of "rev ext" "\<lambda>c. c \<noteq> sep" "sep # rev pre"] all by simp
  show ?thesis by (simp add: py_rsplit1_def t d)
qed

lemma allowed_file_iff:
  "allowed_file filename \<longleftrightarrow>
     (\<exists>pre ext. filename = pre @ ''.'' @ ext \<and> CHR ''.'' \<notin> set ext \<and>
        py_lower ext \<in> ALLOWED_EXTENSIONS)"
proof
  assume a: "allowed_file filename"
  then have "CHR ''.'' \<in> set filename" by (simp add: allowed_file_def)
  then obtain pre ext where d: "filename = pre @ CHR ''.'' # ext" "CHR ''.'' \<notin> set ext"
    by (meson split_list_last)
  then have "py_rsplit1 (CHR ''.'') filename ! 1 = ext" by (simp add: py_rsplit1_last)
  with a d show "\<exists>pre ext. filename = pre @ ''.'' @ ext \<and> CHR ''.'' \<notin> set ext \<and>
        py_lower ext \<in> ALLOWED_EXTENSIONS"
    by (auto simp: allowed_file_def)
next
  assume "\<exists>pre ext. filename = pre @ ''.'' @ ext \<and> CHR ''.'' \<notin> set ext \<and>
        py_lower ext \<in> ALLOWED_EXTENSIONS"
  then obtain pre ext where d: "filename = pre @ CHR ''.'' # ext" "CHR ''.'' \<notin> set ext"
      "py_lower ext \<in> ALLOWED_EXTENSIONS" by auto
  then have "py_rsplit1 (CHR ''.'') filename ! 1 = ext" by (simp add: py_rsplit1_last)
  with d show "allowed_file filename" by (simp add: allowed_file_def)
qed

lemma upload_rejected_spec_iff:
  "upload_rejected_spec req \<longleftrightarrow>
     (case file_part req of None \<Rightarrow> True | Some filename \<Rightarrow> filename = [] \<or> \<not> allowed_file filename)"
  by (simp add: upload_rejected_spec_def allowed_file_iff ALLOWED_EXTENSIONS_def split: option.splits)

lemma py_split_nonempty: "py_split sep s \<noteq> []"
  by (induction s) auto

lemma py_split_hd: "hd (py_split sep s) = takeWhile (\<lambda>c. c \<noteq> sep) s"
  by (induction s) auto

lemma py_split_no_sep: "sep \<notin> set s \<Longrightarrow> py_split sep s = [s]"
  by (induction s) auto

lemma py_split_append:
  "py_split sep (xs @ sep # ys) = py_split sep xs @ py_split sep ys"
proof (induction xs)
  case Nil
  show ?case by simp
next
  case (Cons c cs)
  then show ?case by (simp add: py_split_nonempty)
qed

lemma takeWhile_last_piece:
  assumes "sep \<notin> set ext"
  shows "takeWhile (\<lambda>c. c \<noteq> sep) (rev ext @ sep # ys) = rev ext"
proof -
  have "\<And>x. x \<in> set (rev ext) \<Longrightarrow> x \<noteq> sep" using assms by auto
  then show ?thesis
    using takeWhile_append2 [of "rev ext" "\<lambda>c. c \<noteq> sep" "sep # ys"] by simp
qed

lemma py_split_last: "last (py_split sep s) = rev (takeWhile (\<lambda>c. c \<noteq> sep) (rev s))"
proof (cases "sep \<in> set s")
  case True
  then obtain pre ext where d: "s = pre @ sep # ext" "sep \<notin> set ext"
    by (meson split_list_last)
  then have "py_split sep s = py_split sep pre @ [ext]"
    by (simp add: py_split_append py_split_no_sep)
  with d show ?thesis by (simp add: takeWhile_last_piece)
next
  case False
  then have "\<forall>x\<in>set (rev s). x \<noteq> sep" by auto
  then have tw: "takeWhile (\<lambda>c. c \<noteq> sep) (rev s) = rev s"
    by (rule takeWhile_eq_all_conv [THEN iffD2])
  show ?thesis unfolding tw using False by (simp add: py_split_no_sep)
qed

lemma url_ext_spec:
  "url_ext url =
     (if inferred_extension_spec url \<in> {''png'', ''jpg'', ''jpeg'', ''webp''}
      then inferred_extension_spec url else ''jpg'')"
  by (simp add: url_ext_def Let_def inferred_extension_spec_def py_split_last py_split_hd
      ALLOWED_EXTENSIONS_def)

lemma url_ext_allowed: "url_ext url \<in> ALLOWED_EXTENSIONS"
  by (simp add: url_ext_def Let_def ALLOWED_EXTENSIONS_def)

section \<open>The handlers, case by case\<close>

lemma cleanup_after_insert: "cleanup p (insert p ups) = (ups - {p}, [Removed p])"
  by (simp add: cleanup_def)

lemma cleanup_uploads: "fst (cleanup p ups) = ups - {p}"
  by (simp add: cleanup_def)

lemma cleanup_events: "Staged q \<notin> set (snd (cleanup p ups))"
  by (simp add: cleanup_def)

lemma upload_finish_eq:
  "upload_finish env p (fs\<lparr>uploads := insert p (uploads fs)\<rparr>) (r, outs1, evs) =
     ((case r of Inr body \<Rightarrow> Json 200 body | Inl e \<Rightarrow> Json 500 (upload_error_body env e)),
      fs\<lparr>uploads := uploads fs - {p}, outputs := outs1\<rparr>, evs @ [Removed p])"
  by (simp add: upload_finish_def cleanup_after_insert)

lemma generate_3d_model_too_large:
  "MAX_CONTENT_LENGTH < body_size req \<Longrightarrow> generate_3d_model env req fs = (Abort 413, fs, [])"
  by (simp add: generate_3d_model_def)

lemma generate_3d_model_rejected:
  assumes "upload_rejected_spec req" and "body_size req \<le> MAX_CONTENT_LENGTH"
  shows "\<exists>msg. generate_3d_model env req fs = (Json 400 [(''error'', VStr msg)], fs, [])"
proof (cases "file_part req")
  case None
  with assms(2) show ?thesis by (simp add: generate_3d_model_def)
next
  case (Some filename)
  with assms have "filename = [] \<or> \<not> allowed_file filename"
    by (simp add: upload_rejected_spec_iff)
  with Some assms(2) show ?thesis by (auto simp: generate_3d_model_def)
qed

lemma generate_3d_model_accepted:
  assumes "\<not> upload_rejected_spec req" and "body_size req \<le> MAX_CONTENT_LENGTH"
    and "u = uuid4 env @ ''_'' @ secure_filename env (the (file_part req))"
    and "upload_try env (form_fields req) (uuid4 env) u (outputs fs) = (r, outs1, evs)"
  shows "generate_3d_model env req fs =
     (case save_result env of
        Saved \<Rightarrow>
          ((case r of Inr body \<Rightarrow> Json 200 body | Inl e \<Rightarrow> Json 500 (upload_error_body env e)),
           fs\<lparr>uploads := uploads fs - {u}, outputs := outs1\<rparr>,
           Staged u # evs @ [Removed u])
      | RaisedBeforeCreate e \<Rightarrow> (Unhandled e, fs, [])
      | RaisedAfterCreate e \<Rightarrow> (Unhandled e, fs\<lparr>uploads := insert u (uploads fs)\<rparr>, [Staged u]))"
proof -
  from assms(1) obtain filename where f: "file_part req = Some filename" "filename \<noteq> []"
      "allowed_file filename"
    by (auto simp: upload_rejected_spec_iff split: option.splits)
  with assms(3) have u: "u = uuid4 env @ ''_'' @ secure_filename env filename" by simp
  show ?thesis
    using f assms(2,4) unfolding u
    by (simp add: generate_3d_model_def Let_def upload_finish_eq split: save_outcome.splits)
qed

lemma url_finish_unbound:
  "url_finish env (r, None, fs1, evs) = (Unhandled UnboundLocalError, fs1, evs)"
  by (simp add: url_finish_def)

lemma url_finish_bound:
  "url_finish env (r, Some p, fs1, evs) =
     ((case r of Inr b \<Rightarrow> Json 200 b | Inl e \<Rightarrow> Json 500 (url_error_body env e)),
      fs1\<lparr>uploads := uploads fs1 - {p}\<rparr>,
      evs @ (if p \<in> uploads fs1 then [Removed p] else []))"
  by (simp add: url_finish_def cleanup_def)

lemma generate_from_url_dict:
  assumes "map_of d ''image_url'' = Some image_url"
  shows "generate_from_url env (Inr (VDict d)) fs =
           url_finish env (url_try env (VDict d) image_url (uuid4 env) fs)"
proof -
  from assms have "d \<noteq> []" by auto
  with assms show ?thesis
    by (simp add: generate_from_url_def truthy_def contains_def subscript_def)
qed

lemma generate_from_url_no_effect:
  assumes "\<not> (\<exists>d image_url. body = Inr (VDict d) \<and> map_of d ''image_url'' = Some image_url)"
  shows "snd (generate_from_url env body fs) = (fs, [])"
proof (cases body)
  case (Inl status)
  then show ?thesis by (simp add: generate_from_url_def)
next
  case (Inr data)
  show ?thesis
  proof (cases data)
    case (VDict d)
    with assms Inr have "map_of d ''image_url'' = None" by auto
    with Inr VDict show ?thesis
      by (simp add: generate_from_url_def contains_def)
  qed (simp_all add: Inr generate_from_url_def contains_def subscript_def split: sum.splits)
qed

lemma fetch_events_not_staged:
  "fetch_3d_from_image env image_path params = (r, evs) \<Longrightarrow> Staged p \<notin> set evs"
  by (auto simp: fetch_3d_from_image_def Let_def split: option.splits)

lemma generation_steps_not_staged:
  assumes "generation_steps env image_path params job_id output_format outs = (r, outs1, evs)"
  shows "Staged p \<notin> set evs"
proof -
  obtain r0 evs0 where f: "fetch_3d_from_image env image_path params = (r0, evs0)" by fastforce
  then have "Staged p \<notin> set evs0" by (rule fetch_events_not_staged)
  with f assms show ?thesis
    by (auto simp: generation_steps_def Let_def split: sum.splits prod.splits if_splits)
qed

lemma url_try_ok:
  assumes "http_get_fails env (VStr url) = None" and "open_fails env = None"
    and "write_fails env = None"
    and "data_get data ''output_format'' (VStr ''glb'') = VStr s"
    and "ip = job_id @ ''.'' @ url_ext url"
    and "generation_steps env ip (parse_json_params data) job_id (py_lower s) (outputs fs) = (r, outs1, evs)"
  shows "url_try env data (VStr url) job_id fs =
           (r, Some ip, fs\<lparr>uploads := insert ip (uploads fs), outputs := outs1\<rparr>, Staged ip # evs)"
  using assms by (simp add: url_try_def Let_def)

lemma url_try_staged:
  assumes "url_try env data image_url job_id fs = (r, ipo, fs1, evs)" and "Staged p \<in> set evs"
  shows "ipo = Some p"
proof (cases "http_get_fails env image_url")
  case (Some e)
  with assms show ?thesis by (simp add: url_try_def)
next
  case None
  show ?thesis
  proof (cases image_url)
    case (VStr url)
    show ?thesis
    proof (cases "open_fails env")
      case (Some e)
      with assms None VStr show ?thesis by (auto simp: url_try_def Let_def)
    next
      case o: None
      show ?thesis
      proof (cases "write_fails env")
        case (Some e)
        with assms None VStr o show ?thesis by (auto simp: url_try_def Let_def)
      next
        case w: None
        show ?thesis
        proof (cases "data_get data ''output_format'' (VStr ''glb'')")
          case s: (VStr s)
          obtain r0 outs0 evs0 where g: "generation_steps env (job_id @ ''.'' @ url_ext url)
              (parse_json_params data) job_id (py_lower s) (outputs fs) = (r0, outs0, evs0)"
            using prod_cases3 by blast
          have "Staged p \<notin> set evs0" using g by (rule generation_steps_not_staged)
          with assms show ?thesis
            unfolding VStr url_try_ok [OF None [unfolded VStr] o w s refl g] by auto
        qed (use assms None VStr o w in \<open>auto simp: url_try_def Let_def\<close>)
      qed
    qed
  qed (use assms None in \<open>auto simp: url_try_def\<close>)
qed

lemma upload_try_parse_error:
  "parse_form_params env fm = Inl e \<Longrightarrow> upload_try env fm job_id ip outs = (Inl e, outs, [])"
  by (simp add: upload_try_def)

lemma upload_try_parsed:
  "parse_form_params env fm = Inr params \<Longrightarrow>
     upload_try env fm job_id ip outs =
       generation_steps env ip params job_id (py_lower (dict_get fm ''output_format'' ''glb'')) outs"
  by (simp add: upload_try_def)

text \<open>Every run of the upload handler either never reaches the generation steps, or is
  the generation steps between staging and removal.\<close>

lemma generate_3d_model_outcomes:
  assumes "generate_3d_model env req fs = (resp, fs1, evs)"
  shows "((\<forall>a. Predict a \<notin> set evs) \<and> (\<forall>c. Convert c \<notin> set evs) \<and> (\<forall>b. resp \<noteq> Json 200 b)) \<or>
         (\<exists>filename params r outs1 evs1.
            file_part req = Some filename \<and>
            parse_form_params env (form_fields req) = Inr params \<and>
            generation_steps env (uuid4 env @ ''_'' @ secure_filename env filename) params (uuid4 env)
              (py_lower (dict_get (form_fields req) ''output_format'' ''glb'')) (outputs fs) = (r, outs1, evs1) \<and>
            resp = (case r of Inr body \<Rightarrow> Json 200 body | Inl e \<Rightarrow> Json 500 (upload_error_body env e)) \<and>
            fs1 = fs\<lparr>uploads := uploads fs - {uuid4 env @ ''_'' @ secure_filename env filename}, outputs := outs1\<rparr> \<and>
            evs = Staged (uuid4 env @ ''_'' @ secure_filename env filename) # evs1 @
                  [Removed (uuid4 env @ ''_'' @ secure_filename env filename)])"
proof (cases "MAX_CONTENT_LENGTH < body_size req")
  case True
  with assms generate_3d_model_too_large [OF True, of env fs] show ?thesis by auto
next
  case small: False
  then have sz: "body_size req \<le> MAX_CONTENT_LENGTH" by simp
  show ?thesis
  proof (cases "upload_rejected_spec req")
    case True
    with assms generate_3d_model_rejected [OF True sz, of env fs] show ?thesis by auto
  next
    case False
    then obtain filename where f: "file_part req = Some filename"
      by (auto simp: upload_rejected_spec_iff split: option.splits)
    define u where "u = uuid4 env @ ''_'' @ secure_filename env (the (file_part req))"
    obtain r outs1 evs1 where
      t: "upload_try env (form_fields req) (uuid4 env) u (outputs fs) = (r, outs1, evs1)"
      using prod_cases3 by blast
    note acc = generate_3d_model_accepted [OF False sz u_def t]
    show ?thesis
    proof (cases "save_result env")
      case (RaisedBeforeCreate e)
      with assms acc show ?thesis by auto
    next
      case (RaisedAfterCreate e)
      with assms acc show ?thesis by auto
    next
      case Saved
      with assms acc have res: "resp = (case r of Inr body \<Rightarrow> Json 200 body | Inl e \<Rightarrow> Json 500 (upload_error_body env e))"
          "fs1 = fs\<lparr>uploads := uploads fs - {u}, outputs := outs1\<rparr>" "evs = Staged u # evs1 @ [Removed u]"
        by auto
      show ?thesis
      proof (cases "parse_form_params env (form_fields req)")
        case (Inl e)
        with t have "r = Inl e" "evs1 = []" by (auto simp: upload_try_parse_error)
        with res show ?thesis by simp
      next
        case (Inr params)
        with t have "generation_steps env u params (uuid4 env)
                (py_lower (dict_get (form_fields req) ''output_format'' ''glb'')) (outputs fs) = (r, outs1, evs1)"
          by (simp add: upload_try_parsed)
        with f Inr res u_def show ?thesis by auto
      qed
    qed
  qed
qed

lemma url_try_outcomes:
  assumes "url_try env data image_url job_id fs = (r, ipo, fs1, evs)"
  shows "((\<forall>a. Predict a \<notin> set evs) \<and> (\<forall>c. Convert c \<notin> set evs) \<and> (\<forall>b. r \<noteq> Inr b)) \<or>
         (\<exists>url s outs1 evs1.
            image_url = VStr url \<and> http_get_fails env image_url = None \<and> open_fails env = None \<and>
            data_get data ''output_format'' (VStr ''glb'') = VStr s \<and>
            generation_steps env (job_id @ ''.'' @ url_ext url) (parse_json_params data) job_id
              (py_lower s) (outputs fs) = (r, outs1, evs1) \<and>
            ipo = Some (job_id @ ''.'' @ url_ext url) \<and>
            fs1 = fs\<lparr>uploads := insert (job_id @ ''.'' @ url_ext url) (uploads fs), outputs := outs1\<rparr> \<and>
            evs = Staged (job_id @ ''.'' @ url_ext url) # evs1)"
proof (cases "http_get_fails env image_url")
  case (Some e)
  with assms show ?thesis by (auto simp: url_try_def)
next
  case None
  show ?thesis
  proof (cases image_url)
    case (VStr url)
    show ?thesis
    proof (cases "open_fails env")
      case (Some e)
      with assms None VStr show ?thesis by (auto simp: url_try_def Let_def)
    next
      case o: None
      show ?thesis
      proof (cases "write_fails env")
        case (Some e)
        with assms None VStr o show ?thesis by (auto simp: url_try_def Let_def)
      next
        case w: None
        show ?thesis
        proof (cases "data_get data ''output_format'' (VStr ''glb'')")
          case s: (VStr s)
          obtain r0 outs0 evs0 where g: "generation_steps env (job_id @ ''.'' @ url_ext url)
              (parse_json_params data) job_id (py_lower s) (outputs fs) = (r0, outs0, evs0)"
            using prod_cases3 by blast
          from assms have "(r0, Some (job_id @ ''.'' @ url_ext url),
               fs\<lparr>uploads := insert (job_id @ ''.'' @ url_ext url) (uploads fs), outputs := outs0\<rparr>,
               Staged (job_id @ ''.'' @ url_ext url) # evs0) = (r, ipo, fs1, evs)"
            unfolding VStr url_try_ok [OF None [unfolded VStr] o w s refl g] .
          with g None VStr o s show ?thesis by auto
        qed (use assms None VStr o w in \<open>auto simp: url_try_def Let_def\<close>)
      qed
    qed
  qed (use assms None in \<open>auto simp: url_try_def\<close>)
qed

lemma generate_from_url_outcomes:
  fixes env :: "'f::zero env"
  assumes "generate_from_url env body fs = (resp, fs1, evs)"
  shows "((\<forall>a. Predict a \<notin> set evs) \<and> (\<forall>c. Convert c \<notin> set evs) \<and> (\<forall>b. resp \<noteq> Json 200 b)) \<or>
         (\<exists>d url s r outs1 evs1.
            body = Inr (VDict d) \<and> map_of d ''image_url'' = Some (VStr url) \<and>
            http_get_fails env (VStr url) = None \<and> open_fails env = None \<and>
            data_get (VDict d) ''output_format'' (VStr ''glb'') = VStr s \<and>
            generation_steps env (uuid4 env @ ''.'' @ url_ext url) (parse_json_params (VDict d)) (uuid4 env)
              (py_lower s) (outputs fs) = (r, outs1, evs1) \<and>
            resp = (case r of Inr b \<Rightarrow> Json 200 b | Inl e \<Rightarrow> Json 500 (url_error_body env e)) \<and>
            fs1 = fs\<lparr>uploads := uploads fs - {uuid4 env @ ''.'' @ url_ext url}, outputs := outs1\<rparr> \<and>
            evs = Staged (uuid4 env @ ''.'' @ url_ext url) # evs1 @
                  [Removed (uuid4 env @ ''.'' @ url_ext url)])"
proof (cases "\<exists>d image_url. body = Inr (VDict d) \<and> map_of d ''image_url'' = Some image_url")
  case False
  have "\<forall>b. fst (generate_from_url env body fs) \<noteq> Json 200 b"
  proof (cases body)
    case (Inl status)
    then show ?thesis by (simp add: generate_from_url_def)
  next
    case (Inr data)
    show ?thesis
    proof (cases data)
      case (VDict d)
      with False Inr have "map_of d ''image_url'' = None" by auto
      with Inr VDict show ?thesis by (simp add: generate_from_url_def contains_def)
    qed (simp_all add: Inr generate_from_url_def contains_def subscript_def split: sum.splits)
  qed
  with assms generate_from_url_no_effect [OF False, of env fs] show ?thesis by auto
next
  case True
  then obtain d image_url where b: "body = Inr (VDict d)" "map_of d ''image_url'' = Some image_url"
    by auto
  obtain r ipo fs2 evs2 where
    t: "url_try env (VDict d) image_url (uuid4 env) fs = (r, ipo, fs2, evs2)"
    using prod_cases4 by blast
  from assms b t have f: "url_finish env (r, ipo, fs2, evs2) = (resp, fs1, evs)"
    by (simp add: generate_from_url_dict)
  from url_try_outcomes [OF t] show ?thesis
  proof
    assume n: "(\<forall>a. Predict a \<notin> set evs2) \<and> (\<forall>c. Convert c \<notin> set evs2) \<and> (\<forall>b. r \<noteq> Inr b)"
    show ?thesis
    proof (cases ipo)
      case None
      with f n show ?thesis by (auto simp: url_finish_unbound)
    next
      case (Some p)
      with f n show ?thesis by (cases r) (auto simp: url_finish_bound)
    qed
  next
    assume "\<exists>url s outs1 evs1.
            image_url = VStr url \<and> http_get_fails env image_url = None \<and> open_fails env = None \<and>
            data_get (VDict d) ''output_format'' (VStr ''glb'') = VStr s \<and>
            generation_steps env (uuid4 env @ ''.'' @ url_ext url) (parse_json_params (VDict d)) (uuid4 env)
              (py_lower s) (outputs fs) = (r, outs1, evs1) \<and>
            ipo = Some (uuid4 env @ ''.'' @ url_ext url) \<and>
            fs2 = fs\<lparr>uploads := insert (uuid4 env @ ''.'' @ url_ext url) (uploads fs), outputs := outs1\<rparr> \<and>
            evs2 = Staged (uuid4 env @ ''.'' @ url_ext url) # evs1"
    then obtain url s outs1 evs1 where
      r: "image_url = VStr url" "http_get_fails env image_url = None" "open_fails env = None"
         "data_get (VDict d) ''output_format'' (VStr ''glb'') = VStr s"
         "generation_steps env (uuid4 env @ ''.'' @ url_ext url) (parse_json_params (VDict d)) (uuid4 env)
              (py_lower s) (outputs fs) = (r, outs1, evs1)"
         "ipo = Some (uuid4 env @ ''.'' @ url_ext url)"
         "fs2 = fs\<lparr>uploads := insert (uuid4 env @ ''.'' @ url_ext url) (uploads fs), outputs := outs1\<rparr>"
         "evs2 = Staged (uuid4 env @ ''.'' @ url_ext url) # evs1"
      by blast
    from f r(6,7,8) have
      "resp = (case r of Inr b \<Rightarrow> Json 200 b | Inl e \<Rightarrow> Json 500 (url_error_body env e))"
      "fs1 = fs\<lparr>uploads := uploads fs - {uuid4 env @ ''.'' @ url_ext url}, outputs := outs1\<rparr>"
      "evs = Staged (uuid4 env @ ''.'' @ url_ext url) # evs1 @ [Removed (uuid4 env @ ''.'' @ url_ext url)]"
      by (auto simp: url_finish_bound)
    with b r show ?thesis by auto
  qed
qed

lemma generation_steps_predict:
  assumes "generation_steps env ip params job_id fmt outs = (r, outs1, evs)"
    and "Predict a \<in> set evs"
  shows "a = \<lparr>image = ip,
              steps = dict_get params ''steps'' (VInt 30),
              guidance_scale = dict_get params ''guidance_scale'' (VInt 5),
              seed = dict_get params ''seed'' (VInt 1234),
              octree_resolution = dict_get params ''octree_resolution'' (VInt 256),
              check_box_rembg = dict_get params ''remove_background'' (VBool True),
              num_chunks = dict_get params ''num_chunks'' (VInt 8000),
              randomize_seed = dict_get params ''randomize_seed'' (VBool True)\<rparr>"
proof -
  obtain r0 evs0 where f: "fetch_3d_from_image env ip params = (r0, evs0)" by fastforce
  with assms have "Predict a \<in> set evs0"
    by (auto simp: generation_steps_def Let_def split: sum.splits prod.splits if_splits)
  with f show ?thesis
    by (auto simp: fetch_3d_from_image_def Let_def split: option.splits)
qed

lemma parse_form_params_Inr:
  assumes "parse_form_params env fm = Inr params"
  shows "\<exists>st gs sd.
           form_int env fm ''steps'' 30 = Inr st \<and>
           form_float env fm ''guidance_scale'' 5 = Inr gs \<and>
           form_int env fm ''seed'' 1234 = Inr sd \<and>
           params = [(''steps'', VInt st), (''guidance_scale'', VFloat gs), (''seed'', VInt sd),
                     (''remove_background'',
                        VBool (py_lower (dict_get fm ''remove_background'' ''true'') = ''true'')),
                     (''randomize_seed'',
                        VBool (py_lower (dict_get fm ''randomize_seed'' ''true'') = ''true''))]"
  using assms by (auto simp: parse_form_params_def split: sum.splits)

lemma form_int_Inr:
  "form_int env fm k dflt = Inr n \<Longrightarrow>
     (case map_of fm k of None \<Rightarrow> n = dflt | Some s \<Rightarrow> int_of_str env s = Some n)"
  by (auto simp: form_int_def split: option.splits)

lemma form_float_Inr:
  "form_float env fm k dflt = Inr x \<Longrightarrow>
     (case map_of fm k of None \<Rightarrow> x = float_of_int env dflt | Some s \<Rightarrow> float_of_str env s = Some x)"
  by (auto simp: form_float_def split: option.splits)

lemma generation_steps_not_obj:
  "fmt \<noteq> ''obj'' \<Longrightarrow>
     generation_steps env ip params job_id fmt outs = generation_steps env ip params job_id ''glb'' outs"
  by (simp add: generation_steps_def split: prod.splits sum.splits)

lemma generation_steps_glb_only:
  assumes "fmt \<noteq> ''obj''" and "generation_steps env ip params job_id fmt outs = (r, outs1, evs)"
  shows "(\<forall>c. Convert c \<notin> set evs) \<and> (\<forall>b. r = Inr b \<longrightarrow> map_of b ''obj_url'' = None)"
proof -
  obtain r0 evs0 where f: "fetch_3d_from_image env ip params = (r0, evs0)" by fastforce
  then have "\<forall>c. Convert c \<notin> set evs0"
    by (auto simp: fetch_3d_from_image_def Let_def split: option.splits)
  with f assms show ?thesis
    by (auto simp: generation_steps_def Let_def split: sum.splits)
qed

lemma py_lower_glb: "py_lower ''glb'' = ''glb''"
  by (simp add: py_lower_def lower_char_def)

lemma form_int_other_key:
  "k \<noteq> k' \<Longrightarrow> form_int env ((k', v) # fm) k dflt = form_int env fm k dflt"
  by (simp add: form_int_def)

lemma form_float_other_key:
  "k \<noteq> k' \<Longrightarrow> form_float env ((k', v) # fm) k dflt = form_float env fm k dflt"
  by (simp add: form_float_def)

lemma dict_get_other_key:
  "k \<noteq> k' \<Longrightarrow> dict_get ((k', v) # d) k dflt = dict_get d k dflt"
  by (simp add: dict_get_def)

lemma parse_form_params_output_format:
  "parse_form_params env ((''output_format'', v) # fm) = parse_form_params env fm"
  by (simp add: parse_form_params_def form_int_other_key form_float_other_key dict_get_other_key
      split: sum.splits)

lemma upload_try_glb:
  assumes "py_lower (dict_get fm ''output_format'' ''glb'') \<noteq> ''obj''"
  shows "upload_try env ((''output_format'', ''glb'') # fm) job_id ip outs = upload_try env fm job_id ip outs"
proof (cases "parse_form_params env fm")
  case (Inl e)
  then show ?thesis by (simp add: upload_try_def parse_form_params_output_format)
next
  case (Inr params)
  have "dict_get ((''output_format'', ''glb'') # fm) ''output_format'' ''glb'' = ''glb''"
    by (simp add: dict_get_def)
  with Inr show ?thesis
    using generation_steps_not_obj [OF assms, of env ip params job_id outs]
    by (simp add: upload_try_def parse_form_params_output_format py_lower_glb)
qed

lemma parse_json_params_output_format:
  "parse_json_params (VDict ((''output_format'', v) # d)) = parse_json_params (VDict d)"
  by (simp add: parse_json_params_def data_get_def dict_get_other_key)

lemma url_try_glb:
  assumes "data_get (VDict d) ''output_format'' (VStr ''glb'') = VStr v" and "py_lower v \<noteq> ''obj''"
  shows "url_try env (VDict ((''output_format'', VStr ''glb'') # d)) image_url job_id fs =
         url_try env (VDict d) image_url job_id fs"
proof -
  have g: "data_get (VDict ((''output_format'', VStr ''glb'') # d)) ''output_format'' (VStr ''glb'') = VStr ''glb''"
    by (simp add: data_get_def dict_get_def)
  show ?thesis
    unfolding url_try_def parse_json_params_output_format g assms(1)
    by (simp add: py_lower_glb Let_def generation_steps_not_obj [OF assms(2)]
        split: option.splits pyval.splits)
qed

lemma generate_from_url_glb:
  fixes env :: "'f::zero env"
  assumes "data_get (VDict d) ''output_format'' (VStr ''glb'') = VStr v" and "py_lower v \<noteq> ''obj''"
  shows "generate_from_url env (Inr (VDict ((''output_format'', VStr ''glb'') # d))) fs =
         generate_from_url env (Inr (VDict d)) fs"
proof (cases "map_of d ''image_url''")
  case None
  then show ?thesis by (simp add: generate_from_url_def truthy_def contains_def)
next
  case (Some image_url)
  then have "map_of ((''output_format'', VStr ''glb'') # d) ''image_url'' = Some image_url" by simp
  from generate_from_url_dict [OF this] generate_from_url_dict [OF Some] show ?thesis
    by (simp add: url_try_glb [OF assms])
qed

lemma generate_3d_model_glb:
  assumes "py_lower (dict_get (form_fields req) ''output_format'' ''glb'') \<noteq> ''obj''"
  shows "generate_3d_model env (req\<lparr>form_fields := (''output_format'', ''glb'') # form_fields req\<rparr>) fs =
         generate_3d_model env req fs"
  by (simp add: generate_3d_model_def Let_def upload_try_glb [OF assms]
      split: option.splits save_outcome.splits)

lemma url_try_opened:
  assumes "http_get_fails env (VStr url) = None" and "open_fails env = None"
  shows "\<exists>r fs1 evs. url_try env data (VStr url) job_id fs =
           (r, Some (job_id @ ''.'' @ url_ext url), fs1, Staged (job_id @ ''.'' @ url_ext url) # evs) \<and>
           (\<forall>p. Staged p \<notin> set evs)"
proof (cases "write_fails env")
  case (Some e)
  with assms show ?thesis by (simp add: url_try_def Let_def)
next
  case w: None
  show ?thesis
  proof (cases "data_get data ''output_format'' (VStr ''glb'')")
    case s: (VStr s)
    obtain r0 outs0 evs0 where g: "generation_steps env (job_id @ ''.'' @ url_ext url)
        (parse_json_params data) job_id (py_lower s) (outputs fs) = (r0, outs0, evs0)"
      using prod_cases3 by blast
    have "\<forall>p. Staged p \<notin> set evs0" using generation_steps_not_staged [OF g] by simp
    then show ?thesis unfolding url_try_ok [OF assms w s refl g] by simp
  qed (use assms w in \<open>simp_all add: url_try_def Let_def\<close>)
qed

lemma url_download_failure_unbound:
  fixes env :: "'f::zero env"
  assumes "map_of d ''image_url'' = Some image_url" and "http_get_fails env image_url = Some e"
  shows "generate_from_url env (Inr (VDict d)) fs = (Unhandled UnboundLocalError, fs, [])"
  using assms by (simp add: generate_from_url_dict url_try_def url_finish_unbound)

section \<open>Conversion and download\<close>

lemma uuid_shape_chars:
  assumes "uuid_shape s"
  shows "s \<noteq> [] \<and> CHR ''/'' \<notin> set s \<and> CHR ''.'' \<notin> set s"
proof -
  have m: "map uuid_class s = ''hhhhhhhh-hhhh-hhhh-hhhh-hhhhhhhhhhhh''"
    using assms by (simp add: uuid_shape_def)
  have q: "CHR ''?'' \<notin> set (map uuid_class s)" unfolding m by simp
  have "s \<noteq> []" using m by auto
  moreover have "CHR ''/'' \<notin> set s"
  proof
    assume "CHR ''/'' \<in> set s"
    then have "uuid_class (CHR ''/'') \<in> set (map uuid_class s)" by simp
    with q show False by (simp add: uuid_class_def)
  qed
  moreover have "CHR ''.'' \<notin> set s"
  proof
    assume "CHR ''.'' \<in> set s"
    then have "uuid_class (CHR ''.'') \<in> set (map uuid_class s)" by simp
    with q show False by (simp add: uuid_class_def)
  qed
  ultimately show ?thesis by simp
qed

lemma glb_base_name:
  assumes "CHR ''/'' \<notin> set j" and "CHR ''.'' \<notin> set j" and "j \<noteq> []"
  shows "fst (py_splitext (py_basename (j @ ''.glb''))) = j"
proof -
  have all: "\<And>x. x \<in> set (rev (j @ ''.glb'')) \<Longrightarrow> x \<noteq> CHR ''/''" using assms(1) by auto
  have b: "py_basename (j @ ''.glb'') = j @ ''.glb''"
    unfolding py_basename_def
    using takeWhile_eq_all_conv [of "\<lambda>c. c \<noteq> CHR ''/''" "rev (j @ ''.glb'')"] all
    by (metis rev_rev_ident)
  have ex: "list_ex (\<lambda>c. c \<noteq> CHR ''.'') j"
    using assms(2,3) by (cases j) (auto simp: list_ex_iff)
  show ?thesis
    unfolding b using ex assms(2) by (simp add: py_splitext_def b Let_def)
qed

lemma find_entry_Some: "find_entry n outs = Some e \<Longrightarrow> d_name e = n \<and> e \<in> set outs"
  by (auto simp: find_entry_def find_Some_iff)

lemma find_entry_map:
  assumes "\<And>e. d_name (f e) = d_name e"
  shows "find_entry n (map f outs) = map_option f (find_entry n outs)"
  unfolding find_entry_def by (induction outs) (auto simp: assms)

lemma find_entry_append_new:
  "find_entry n outs = None \<Longrightarrow>
     find_entry n (outs @ [e]) = (if d_name e = n then Some e else None)"
  unfolding find_entry_def by (induction outs) auto

lemma makedirs_directory:
  assumes "makedirs env n outs = Inr outs1"
  shows "\<exists>t ns. find_entry n outs1 = Some (Dirent n t (Directory ns))"
proof (cases "find_entry n outs")
  case None
  with assms have "outs1 = outs @ [Dirent n (clock env) (Directory [])]"
    by (simp add: makedirs_def)
  with None show ?thesis by (simp add: find_entry_append_new)
next
  case (Some e)
  with assms obtain ns where "d_kind e = Directory ns" "outs1 = outs"
    by (cases "d_kind e") (auto simp: makedirs_def)
  with Some find_entry_Some [OF Some] show ?thesis by (cases e) auto
qed

lemma export_into_directory:
  assumes "find_entry n outs = Some (Dirent n t (Directory ns))"
  shows "\<exists>t' ns'. find_entry n (export_into env n obj written outs) = Some (Dirent n t' (Directory ns')) \<and>
           obj \<in> set ns'"
proof -
  let ?f = "\<lambda>e. if d_name e = n
              then (case d_kind e of
                      RegularFile \<Rightarrow> e
                    | Directory ns \<Rightarrow>
                        (let new = fst written @ [obj] @ snd written
                         in Dirent n (clock env) (Directory (new @ filter (\<lambda>x. x \<notin> set new) ns))))
              else e"
  have nm: "\<And>e. d_name (?f e) = d_name e" by (auto simp: Let_def split: kind.splits)
  have "find_entry n (map ?f outs) = map_option ?f (find_entry n outs)"
    using nm by (rule find_entry_map)
  with assms show ?thesis by (simp add: export_into_def Let_def)
qed

lemma convert_glb_to_obj_success:
  assumes "convert_glb_to_obj env (j @ ''.glb'') outs = (Inr p, outs2)"
    and "fst (py_splitext (py_basename (j @ ''.glb''))) = j"
  shows "\<exists>t ns. find_entry j outs2 = Some (Dirent j t (Directory ns)) \<and> j @ ''.obj'' \<in> set ns"
proof -
  from assms obtain outs1 written where
    m: "makedirs env j outs = Inr outs1" and
    o: "outs2 = export_into env j (j @ ''.obj'') written outs1"
    by (auto simp: convert_glb_to_obj_def Let_def split: sum.splits option.splits)
  from makedirs_directory [OF m] obtain t ns where
    "find_entry j outs1 = Some (Dirent j t (Directory ns))" by blast
  from export_into_directory [OF this] o show ?thesis by blast
qed

lemma endswith_append: "endswith (a @ suf) suf"
  by (simp add: endswith_def)

lemma download_model_obj:
  assumes "find_entry j (outputs fs) = Some (Dirent j t (Directory ns))"
    and "x \<in> set ns" and "endswith x ''.obj''" and "CHR ''.'' \<notin> set j"
  shows "\<exists>f. download_model fs j ''obj'' = Attachment [j, f] (j @ ''.obj'') \<and>
             endswith f ''.obj'' \<and> f \<in> set ns"
proof (cases "find (\<lambda>f. endswith f ''.obj'') ns")
  case None
  with assms(2,3) show ?thesis by (auto simp: find_None_iff)
next
  case (Some f)
  then have "endswith f ''.obj''" "f \<in> set ns" by (auto simp: find_Some_iff)
  moreover from assms(4) have "j \<noteq> ''.''" "j \<noteq> ''..''" by auto
  ultimately show ?thesis using Some assms(1) by (simp add: download_model_def)
qed

lemma generation_steps_obj_success:
  assumes "generation_steps env ip params j ''obj'' outs = (Inr body, outs2, evs)"
  shows "body = [(''job_id'', VStr j), (''status'', VStr ''completed''),
                 (''glb_url'', VStr (''/api/download/'' @ j @ ''/glb'')),
                 (''obj_url'', VStr (''/api/download/'' @ j @ ''/obj''))] \<and>
         (\<exists>p outs1. convert_glb_to_obj env (j @ ''.glb'') outs1 = (Inr p, outs2))"
proof -
  obtain r0 evs0 where f: "fetch_3d_from_image env ip params = (r0, evs0)" by fastforce
  with assms show ?thesis
    by (auto simp: generation_steps_def Let_def split: sum.splits prod.splits)
qed

lemma route_download_url:
  assumes "CHR ''/'' \<notin> set j" and "j \<noteq> []" and "CHR ''/'' \<notin> set fmt" and "fmt \<noteq> []"
  shows "route_download (''/api/download/'' @ j @ ''/'' @ fmt) = Some (j, fmt)"
proof -
  have 1: "py_split (CHR ''/'') (j @ CHR ''/'' # fmt) = [j, fmt]"
    using assms by (simp add: py_split_append py_split_no_sep)
  have "py_split (CHR ''/'') (''/api/download/'' @ j @ ''/'' @ fmt) = [[], ''api'', ''download'', j, fmt]"
    using 1 by simp
  with assms show ?thesis by (simp add: route_download_def)
qed

text \<open>Where the paths of a job have the kinds the service gives them, the download
  handler sends the stored file or answers 404.\<close>

lemma download_model_glb_regular:
  assumes "\<And>e. e \<in> set (outputs fs) \<Longrightarrow> d_name e = j @ ''.glb'' \<Longrightarrow> d_kind e = RegularFile"
  shows "download_model fs j ''glb'' =
           (if find_entry (j @ ''.glb'') (outputs fs) = None then not_found
            else Attachment [j @ ''.glb''] (j @ ''.glb''))"
proof (cases "find_entry (j @ ''.glb'') (outputs fs)")
  case None
  then show ?thesis by (simp add: download_model_def)
next
  case (Some e)
  from find_entry_Some [OF Some] assms have "d_kind e = RegularFile" by simp
  with Some show ?thesis by (simp add: download_model_def)
qed

lemma download_model_obj_directory:
  assumes "\<And>e. e \<in> set (outputs fs) \<Longrightarrow> d_name e = j \<Longrightarrow> d_kind e \<noteq> RegularFile"
    and "j \<noteq> ''.''" and "j \<noteq> ''..''"
  shows "download_model fs j ''obj'' =
           (case find_entry j (outputs fs) of
              None \<Rightarrow> not_found
            | Some e \<Rightarrow>
                (case d_kind e of
                   RegularFile \<Rightarrow> not_found
                 | Directory ns \<Rightarrow>
                     (case find (\<lambda>f. endswith f ''.obj'') ns of
                        Some f \<Rightarrow> Attachment [j, f] (j @ ''.obj'')
                      | None \<Rightarrow> not_found)))"
proof (cases "find_entry j (outputs fs)")
  case None
  with assms(2,3) show ?thesis by (simp add: download_model_def)
next
  case (Some e)
  from find_entry_Some [OF Some] assms(1) have "d_kind e \<noteq> RegularFile" by simp
  with Some assms(2,3) show ?thesis by (cases "d_kind e") (simp_all add: download_model_def)
qed

section \<open>Sorting newest first\<close>

lemma sorted_reverse_mset: "mset (sorted_reverse key xs) = mset xs"
  by (simp add: sorted_reverse_def)

lemma sorted_reverse_length: "length (sorted_reverse key xs) = length xs"
  by (simp add: sorted_reverse_def)

lemma sorted_reverse_descending:
  "sorted_wrt (\<lambda>x y. key y \<le> key x) (sorted_reverse key xs)"
proof -
  have "sorted (map key (sort_key key (rev xs)))" by (rule sorted_sort_key)
  then have "sorted_wrt (\<lambda>x y. key x \<le> key y) (sort_key key (rev xs))"
    by (simp add: sorted_map)
  then show ?thesis
    by (simp add: sorted_reverse_def sorted_wrt_rev)
qed

section \<open>Runs on the example inputs\<close>

lemmas string_defs = py_lower_def lower_char_def endswith_def py_rsplit1_def py_basename_def
  py_splitext_def ALLOWED_EXTENSIONS_def allowed_file_def url_ext_spec inferred_extension_spec_def

lemmas handler_defs = generate_3d_model_def upload_finish_def upload_try_def parse_form_params_def
  form_int_def form_float_def upload_error_body_def generation_steps_def fetch_3d_from_image_def
  shutil_copy_def convert_glb_to_obj_def makedirs_def export_into_def put_entry_def find_entry_def
  cleanup_def dict_get_def generate_from_url_def url_finish_def url_try_def parse_json_params_def
  data_get_def truthy_def contains_def subscript_def url_error_body_def download_model_def
  MAX_CONTENT_LENGTH_def
  Let_def

lemma example_upload_run:
  "generate_3d_model example_env example_upload empty_fs =
   (Json 200
     [(''job_id'', VStr ''3f2b8c1e-5d4a-4e6f-9a7b-0c1d2e3f4a5b''),
      (''status'', VStr ''completed''),
      (''glb_url'', VStr ''/api/download/3f2b8c1e-5d4a-4e6f-9a7b-0c1d2e3f4a5b/glb''),
      (''obj_url'', VStr ''/api/download/3f2b8c1e-5d4a-4e6f-9a7b-0c1d2e3f4a5b/obj'')],
    \<lparr>uploads = {},
       outputs =
         [Dirent ''3f2b8c1e-5d4a-4e6f-9a7b-0c1d2e3f4a5b.glb'' 100 RegularFile,
          Dirent ''3f2b8c1e-5d4a-4e6f-9a7b-0c1d2e3f4a5b'' 100
           (Directory [''material.mtl'', ''3f2b8c1e-5d4a-4e6f-9a7b-0c1d2e3f4a5b.obj''])],
       app_folder = [(''app.py'', RegularFile), (''uploads'', Directory []),
                     (''output'', Directory [])]\<rparr>,
    [Staged ''3f2b8c1e-5d4a-4e6f-9a7b-0c1d2e3f4a5b_cat.PNG'',
     Predict
      \<lparr>image = ''3f2b8c1e-5d4a-4e6f-9a7b-0c1d2e3f4a5b_cat.PNG'',
         steps = VInt 7, guidance_scale = VFloat 5, seed = VInt 1234,
         octree_resolution = VInt 256, check_box_rembg = VBool False,
         num_chunks = VInt 8000, randomize_seed = VBool True\<rparr>,
     Convert ''3f2b8c1e-5d4a-4e6f-9a7b-0c1d2e3f4a5b.glb'',
     Removed ''3f2b8c1e-5d4a-4e6f-9a7b-0c1d2e3f4a5b_cat.PNG''])"
  by (simp add: example_env_def example_upload_def empty_fs_def handler_defs string_defs)

lemma example_listing_models:
  "sorted_reverse created_at (collect_models (outputs example_listing)) =
     [Model ''b'' ''/api/download/b/glb'' 2, Model ''a'' ''/api/download/a/glb'' 1]"
  by (simp add: example_listing_def collect_models_def sorted_reverse_def endswith_def Let_def)

lemma example_url_run:
  "generate_from_url example_env (Inr (VDict example_url_fields)) empty_fs =
   (Json 200
     [(''job_id'', VStr ''3f2b8c1e-5d4a-4e6f-9a7b-0c1d2e3f4a5b''),
      (''status'', VStr ''completed''),
      (''glb_url'', VStr ''/api/download/3f2b8c1e-5d4a-4e6f-9a7b-0c1d2e3f4a5b/glb'')],
    \<lparr>uploads = {},
       outputs = [Dirent ''3f2b8c1e-5d4a-4e6f-9a7b-0c1d2e3f4a5b.glb'' 100 RegularFile],
       app_folder = [(''app.py'', RegularFile), (''uploads'', Directory []),
                     (''output'', Directory [])]\<rparr>,
    [Staged ''3f2b8c1e-5d4a-4e6f-9a7b-0c1d2e3f4a5b.webp'',
     Predict
      \<lparr>image = ''3f2b8c1e-5d4a-4e6f-9a7b-0c1d2e3f4a5b.webp'',
         steps = VStr ''40'', guidance_scale = VInt 5, seed = VInt 1234,
         octree_resolution = VInt 256, check_box_rembg = VBool True,
         num_chunks = VInt 8000, randomize_seed = VBool True\<rparr>,
     Removed ''3f2b8c1e-5d4a-4e6f-9a7b-0c1d2e3f4a5b.webp''])"
  by (simp add: example_env_def example_url_fields_def empty_fs_def handler_defs string_defs)

lemma example_uuid_shape: "uuid_shape (uuid4 example_env)"
  by (simp add: example_env_def uuid_shape_def uuid_class_def)


lemma example_uuid: "uuid4 example_env = ''3f2b8c1e-5d4a-4e6f-9a7b-0c1d2e3f4a5b''"
  by (simp add: example_env_def)

text \<open>Whatever call of the remote model a generate request makes, its arguments are the
  coerced form values (upload) or the values of the JSON body (URL).\<close>

lemma predict_event_arguments:
  fixes env :: "'f::zero env"
  shows "(generate_3d_model env req fs = (resp, fs1, evs) \<and> Predict a \<in> set evs \<longrightarrow>
            (case map_of (form_fields req) ''steps'' of
               None \<Rightarrow> steps a = VInt 30
             | Some s \<Rightarrow> \<exists>n. int_of_str env s = Some n \<and> steps a = VInt n) \<and>
            (case map_of (form_fields req) ''seed'' of
               None \<Rightarrow> seed a = VInt 1234
             | Some s \<Rightarrow> \<exists>n. int_of_str env s = Some n \<and> seed a = VInt n) \<and>
            (case map_of (form_fields req) ''guidance_scale'' of
               None \<Rightarrow> guidance_scale a = VFloat (float_of_int env 5)
             | Some s \<Rightarrow> \<exists>x. float_of_str env s = Some x \<and> guidance_scale a = VFloat x) \<and>
            check_box_rembg a =
              VBool (case map_of (form_fields req) ''remove_background'' of
                       None \<Rightarrow> True | Some s \<Rightarrow> py_lower s = ''true'') \<and>
            randomize_seed a =
              VBool (case map_of (form_fields req) ''randomize_seed'' of
                       None \<Rightarrow> True | Some s \<Rightarrow> py_lower s = ''true'')) \<and>
         (generate_from_url env body fs = (resp, fs1, evs) \<and> Predict a \<in> set evs \<longrightarrow>
            (\<exists>d. body = Inr (VDict d) \<and>
               steps a = (case map_of d ''steps'' of None \<Rightarrow> VInt 30 | Some v \<Rightarrow> v) \<and>
               seed a = (case map_of d ''seed'' of None \<Rightarrow> VInt 1234 | Some v \<Rightarrow> v) \<and>
               guidance_scale a = (case map_of d ''guidance_scale'' of None \<Rightarrow> VInt 5 | Some v \<Rightarrow> v) \<and>
               check_box_rembg a = (case map_of d ''remove_background'' of None \<Rightarrow> VBool True | Some v \<Rightarrow> v) \<and>
               randomize_seed a = (case map_of d ''randomize_seed'' of None \<Rightarrow> VBool True | Some v \<Rightarrow> v)))"
proof (intro conjI impI)
  assume h: "generate_3d_model env req fs = (resp, fs1, evs) \<and> Predict a \<in> set evs"
  with generate_3d_model_outcomes [of env req fs resp fs1 evs]
  obtain filename params r outs1 evs1 where
    p: "parse_form_params env (form_fields req) = Inr params" and
    g: "generation_steps env (uuid4 env @ ''_'' @ secure_filename env filename) params (uuid4 env)
          (py_lower (dict_get (form_fields req) ''output_format'' ''glb'')) (outputs fs) = (r, outs1, evs1)" and
    e: "evs = Staged (uuid4 env @ ''_'' @ secure_filename env filename) # evs1 @
                  [Removed (uuid4 env @ ''_'' @ secure_filename env filename)]"
    by blast
  from h e have "Predict a \<in> set evs1" by simp
  note a = generation_steps_predict [OF g this]
  from parse_form_params_Inr [OF p] obtain st gs sd where
    st: "form_int env (form_fields req) ''steps'' 30 = Inr st" and
    gs: "form_float env (form_fields req) ''guidance_scale'' 5 = Inr gs" and
    sd: "form_int env (form_fields req) ''seed'' 1234 = Inr sd" and
    ps: "params = [(''steps'', VInt st), (''guidance_scale'', VFloat gs), (''seed'', VInt sd),
                     (''remove_background'',
                        VBool (py_lower (dict_get (form_fields req) ''remove_background'' ''true'') = ''true'')),
                     (''randomize_seed'',
                        VBool (py_lower (dict_get (form_fields req) ''randomize_seed'' ''true'') = ''true''))]"
    by blast
  have v: "steps a = VInt st" "guidance_scale a = VFloat gs" "seed a = VInt sd"
    "check_box_rembg a = VBool (py_lower (dict_get (form_fields req) ''remove_background'' ''true'') = ''true'')"
    "randomize_seed a = VBool (py_lower (dict_get (form_fields req) ''randomize_seed'' ''true'') = ''true'')"
    unfolding a ps by (simp_all add: dict_get_def)
  have t: "py_lower ''true'' = ''true''" by (simp add: py_lower_def lower_char_def)
  show "case map_of (form_fields req) ''steps'' of
               None \<Rightarrow> steps a = VInt 30
             | Some s \<Rightarrow> \<exists>n. int_of_str env s = Some n \<and> steps a = VInt n"
    using form_int_Inr [OF st] v(1) by (simp split: option.splits)
  show "case map_of (form_fields req) ''seed'' of
               None \<Rightarrow> seed a = VInt 1234
             | Some s \<Rightarrow> \<exists>n. int_of_str env s = Some n \<and> seed a = VInt n"
    using form_int_Inr [OF sd] v(3) by (simp split: option.splits)
  show "case map_of (form_fields req) ''guidance_scale'' of
               None \<Rightarrow> guidance_scale a = VFloat (float_of_int env 5)
             | Some s \<Rightarrow> \<exists>x. float_of_str env s = Some x \<and> guidance_scale a = VFloat x"
    using form_float_Inr [OF gs] v(2) by (simp split: option.splits)
  show "check_box_rembg a =
              VBool (case map_of (form_fields req) ''remove_background'' of
                       None \<Rightarrow> True | Some s \<Rightarrow> py_lower s = ''true'')"
    using v(4) t by (simp add: dict_get_def split: option.splits)
  show "randomize_seed a =
              VBool (case map_of (form_fields req) ''randomize_seed'' of
                       None \<Rightarrow> True | Some s \<Rightarrow> py_lower s = ''true'')"
    using v(5) t by (simp add: dict_get_def split: option.splits)
next
  assume h: "generate_from_url env body fs = (resp, fs1, evs) \<and> Predict a \<in> set evs"
  with generate_from_url_outcomes [of env body fs resp fs1 evs]
  obtain d url s r outs1 evs1 where
    b: "body = Inr (VDict d)" and
    g: "generation_steps env (uuid4 env @ ''.'' @ url_ext url) (parse_json_params (VDict d)) (uuid4 env)
              (py_lower s) (outputs fs) = (r, outs1, evs1)" and
    e: "evs = Staged (uuid4 env @ ''.'' @ url_ext url) # evs1 @
                  [Removed (uuid4 env @ ''.'' @ url_ext url)]"
    by blast
  from h e have "Predict a \<in> set evs1" by simp
  note a = generation_steps_predict [OF g this]
  have "steps a = (case map_of d ''steps'' of None \<Rightarrow> VInt 30 | Some v \<Rightarrow> v)"
    "seed a = (case map_of d ''seed'' of None \<Rightarrow> VInt 1234 | Some v \<Rightarrow> v)"
    "guidance_scale a = (case map_of d ''guidance_scale'' of None \<Rightarrow> VInt 5 | Some v \<Rightarrow> v)"
    "check_box_rembg a = (case map_of d ''remove_background'' of None \<Rightarrow> VBool True | Some v \<Rightarrow> v)"
    "randomize_seed a = (case map_of d ''randomize_seed'' of None \<Rightarrow> VBool True | Some v \<Rightarrow> v)"
    unfolding a by (simp_all add: parse_json_params_def dict_get_def data_get_def split: option.splits)
  with b show "\<exists>d. body = Inr (VDict d) \<and>
               steps a = (case map_of d ''steps'' of None \<Rightarrow> VInt 30 | Some v \<Rightarrow> v) \<and>
               seed a = (case map_of d ''seed'' of None \<Rightarrow> VInt 1234 | Some v \<Rightarrow> v) \<and>
               guidance_scale a = (case map_of d ''guidance_scale'' of None \<Rightarrow> VInt 5 | Some v \<Rightarrow> v) \<and>
               check_box_rembg a = (case map_of d ''remove_background'' of None \<Rightarrow> VBool True | Some v \<Rightarrow> v) \<and>
               randomize_seed a = (case map_of d ''randomize_seed'' of None \<Rightarrow> VBool True | Some v \<Rightarrow> v)"
    by blast
qed

text \<open>The calls of the remote model within a run of the generation steps.\<close>

lemma predict_calls_append: "predict_calls (xs @ ys) = predict_calls xs @ predict_calls ys"
  by (induction xs rule: predict_calls.induct) simp_all

lemma generation_steps_predict_calls:
  assumes "client_fails env = None" and "handle_file_fails env = None"
  shows "predict_calls (snd (snd (generation_steps env ip params job_id fmt outs))) =
           [\<lparr>image = ip,
             steps = dict_get params ''steps'' (VInt 30),
             guidance_scale = dict_get params ''guidance_scale'' (VInt 5),
             seed = dict_get params ''seed'' (VInt 1234),
             octree_resolution = dict_get params ''octree_resolution'' (VInt 256),
             check_box_rembg = dict_get params ''remove_background'' (VBool True),
             num_chunks = dict_get params ''num_chunks'' (VInt 8000),
             randomize_seed = dict_get params ''randomize_seed'' (VBool True)\<rparr>]"
  using assms
  by (simp add: generation_steps_def fetch_3d_from_image_def Let_def predict_calls_append
      split: sum.splits prod.splits)

text \<open>In every run but the one in which \<open>file.save\<close> raises after creating the destination,
  a staged file is removed before the request completes.\<close>

lemma staged_input_removed_after_try:
  fixes env :: "'f::zero env"
  assumes "(generate_3d_model env req fs = (resp, fs1, evs) \<and>
            (\<forall>e. save_result env \<noteq> RaisedAfterCreate e)) \<or>
           generate_from_url env body fs = (resp, fs1, evs)"
    and "Staged p \<in> set evs"
  shows "p \<notin> uploads fs1"
  using assms(1)
proof
  assume g0: "generate_3d_model env req fs = (resp, fs1, evs) \<and>
            (\<forall>e. save_result env \<noteq> RaisedAfterCreate e)"
  then have g: "generate_3d_model env req fs = (resp, fs1, evs)" by simp
  show ?thesis
  proof (cases "MAX_CONTENT_LENGTH < body_size req")
    case True
    with g assms(2) generate_3d_model_too_large [OF True, of env fs] show ?thesis by auto
  next
    case small: False
    then have sz: "body_size req \<le> MAX_CONTENT_LENGTH" by simp
    show ?thesis
    proof (cases "upload_rejected_spec req")
      case True
      with g assms(2) generate_3d_model_rejected [OF True sz, of env fs] show ?thesis by auto
    next
      case False
      define u where "u = uuid4 env @ ''_'' @ secure_filename env (the (file_part req))"
      obtain r outs1 evs1 where
        t: "upload_try env (form_fields req) (uuid4 env) u (outputs fs) = (r, outs1, evs1)"
        using prod_cases3 by blast
      have n: "Staged p \<notin> set evs1"
      proof (cases "parse_form_params env (form_fields req)")
        case (Inl e)
        with t show ?thesis by (auto simp: upload_try_def)
      next
        case (Inr params)
        with t show ?thesis by (auto simp: upload_try_def dest: generation_steps_not_staged)
      qed
      show ?thesis
      proof (cases "save_result env")
        case (RaisedBeforeCreate e)
        with g assms(2) generate_3d_model_accepted [OF False sz u_def t] show ?thesis by simp
      next
        case (RaisedAfterCreate e)
        with g0 show ?thesis by simp
      next
        case Saved
        with g generate_3d_model_accepted [OF False sz u_def t]
        have "evs = Staged u # evs1 @ [Removed u]" and "uploads fs1 = uploads fs - {u}" by auto
        with assms(2) n show ?thesis by auto
      qed
    qed
  qed
next
  assume g: "generate_from_url env body fs = (resp, fs1, evs)"
  show ?thesis
  proof (cases "\<exists>d image_url. body = Inr (VDict d) \<and> map_of d ''image_url'' = Some image_url")
    case False
    with g assms(2) generate_from_url_no_effect [of body env fs] show ?thesis by auto
  next
    case True
    then obtain d image_url where b: "body = Inr (VDict d)" "map_of d ''image_url'' = Some image_url"
      by auto
    obtain r ipo fs2 evs2 where t: "url_try env (VDict d) image_url (uuid4 env) fs = (r, ipo, fs2, evs2)"
      using prod_cases4 by blast
    from g b t have f: "url_finish env (r, ipo, fs2, evs2) = (resp, fs1, evs)"
      by (simp add: generate_from_url_dict)
    show ?thesis
    proof (cases ipo)
      case None
      with f have "evs = evs2" by (simp add: url_finish_unbound)
      with assms(2) t None url_try_staged [OF t] show ?thesis by auto
    next
      case (Some q)
      with f have e: "evs = evs2 @ (if q \<in> uploads fs2 then [Removed q] else [])"
        and u: "uploads fs1 = uploads fs2 - {q}"
        by (auto simp: url_finish_bound)
      from e assms(2) have "Staged p \<in> set evs2" by (auto split: if_splits)
      with url_try_staged [OF t] Some have "q = p" by simp
      with u show ?thesis by simp
    qed
  qed
qed

lemma py_lower_true: "py_lower ''true'' = ''true''"
  by (simp add: py_lower_def lower_char_def)

section \<open>The claims\<close>

text \<open>
  Claim C1 as stated fails at a request whose body is larger than \<open>MAX_CONTENT_LENGTH\<close>
  (line 28): a request of 16 MB and one byte without a file part is one the claim answers
  with 400, and reading \<open>request.files\<close> at line 102 aborts it with 413.
\<close>

theorem oversized_upload_counterexample:
  "upload_rejected_spec oversized_upload \<and>
   generate_3d_model example_env oversized_upload empty_fs = (Abort 413, empty_fs, [])"
  by (simp add: upload_rejected_spec_def oversized_upload_def generate_3d_model_def
      MAX_CONTENT_LENGTH_def)

text \<open>
  Claim C1, amended. For every generate-from-upload request whose body is at most 16 MB:
  a request without a file part, with an empty filename or with a filename whose extension
  is not allowed is answered with a 400 JSON error, leaves all folders as they were and
  performs no effect at all, so the remote model is not called; every other request passes
  validation: the handler goes on to \<open>file.save\<close>, and once the file is saved the answer is
  200 or 500, never 400. A request with a larger body is answered 413 when the handler
  reads \<open>request.files\<close>, before validation, with no effect either.
\<close>

theorem upload_validation:
  fixes env :: "'f env"
  shows "(if MAX_CONTENT_LENGTH < body_size req
          then generate_3d_model env req fs = (Abort 413, fs, [])
          else if upload_rejected_spec req
          then (\<exists>msg. generate_3d_model env req fs = (Json 400 [(''error'', VStr msg)], fs, []))
          else (case save_result env of
                  Saved \<Rightarrow>
                    (\<exists>status body fs1 evs.
                       generate_3d_model env req fs =
                         (Json status body, fs1,
                          Staged (uuid4 env @ ''_'' @ secure_filename env (the (file_part req))) # evs) \<and>
                       (status = 200 \<or> status = 500))
                | RaisedBeforeCreate e \<Rightarrow> generate_3d_model env req fs = (Unhandled e, fs, [])
                | RaisedAfterCreate e \<Rightarrow>
                    generate_3d_model env req fs =
                      (Unhandled e,
                       fs\<lparr>uploads := insert (uuid4 env @ ''_'' @ secure_filename env (the (file_part req)))
                                          (uploads fs)\<rparr>,
                       [Staged (uuid4 env @ ''_'' @ secure_filename env (the (file_part req)))])))"
proof (cases "MAX_CONTENT_LENGTH < body_size req")
  case True
  then show ?thesis by (simp add: generate_3d_model_too_large)
next
  case small: False
  then have sz: "body_size req \<le> MAX_CONTENT_LENGTH" by simp
  show ?thesis
  proof (cases "upload_rejected_spec req")
    case True
    with small show ?thesis using generate_3d_model_rejected [OF True sz, of env fs] by simp
  next
    case False
    obtain r outs1 evs where "upload_try env (form_fields req) (uuid4 env)
        (uuid4 env @ ''_'' @ secure_filename env (the (file_part req))) (outputs fs) = (r, outs1, evs)"
      using prod_cases3 by blast
    note acc = generate_3d_model_accepted [OF False sz refl this]
    show ?thesis
    proof (cases "save_result env")
      case Saved
      with small False acc show ?thesis by (cases r) auto
    next
      case (RaisedBeforeCreate e)
      with small False acc show ?thesis by simp
    next
      case (RaisedAfterCreate e)
      with small False acc show ?thesis by simp
    qed
  qed
qed

text \<open>
  The amended claim at the oversized request (413), at \<open>cat.gif\<close> (rejected) and at
  \<open>cat.PNG\<close> (accepted).
\<close>

theorem upload_validation_witness:
  "generate_3d_model example_env oversized_upload empty_fs = (Abort 413, empty_fs, []) \<and>
   (\<exists>msg. generate_3d_model example_env
             \<lparr>body_size = 10240, file_part = Some ''cat.gif'', form_fields = []\<rparr> empty_fs
       = (Json 400 [(''error'', VStr msg)], empty_fs, [])) \<and>
   (\<exists>status body fs1 evs.
      generate_3d_model example_env
        \<lparr>body_size = 10240, file_part = Some ''cat.PNG'', form_fields = []\<rparr> empty_fs
        = (Json status body, fs1, Staged ''3f2b8c1e-5d4a-4e6f-9a7b-0c1d2e3f4a5b_cat.PNG'' # evs) \<and>
      (status = 200 \<or> status = 500))"
proof (intro conjI)
  have big: "MAX_CONTENT_LENGTH < body_size oversized_upload"
    by (simp add: oversized_upload_def MAX_CONTENT_LENGTH_def)
  show "generate_3d_model example_env oversized_upload empty_fs = (Abort 413, empty_fs, [])"
    using upload_validation [of oversized_upload example_env empty_fs]
    by (simp only: big if_True)
next
  let ?req = "\<lparr>body_size = 10240, file_part = Some ''cat.gif'', form_fields = []\<rparr>"
  have small: "\<not> MAX_CONTENT_LENGTH < body_size ?req" by (simp add: MAX_CONTENT_LENGTH_def)
  have no: "upload_rejected_spec ?req"
    by (simp add: upload_rejected_spec_iff allowed_file_def py_rsplit1_def py_lower_def
        lower_char_def ALLOWED_EXTENSIONS_def)
  show "\<exists>msg. generate_3d_model example_env ?req empty_fs
       = (Json 400 [(''error'', VStr msg)], empty_fs, [])"
    using upload_validation [of ?req example_env empty_fs]
    by (simp only: small no if_True if_False)
next
  let ?req = "\<lparr>body_size = 10240, file_part = Some ''cat.PNG'', form_fields = []\<rparr>"
  have small: "\<not> MAX_CONTENT_LENGTH < body_size ?req" by (simp add: MAX_CONTENT_LENGTH_def)
  have yes: "\<not> upload_rejected_spec ?req"
    by (simp add: upload_rejected_spec_iff allowed_file_def py_rsplit1_def py_lower_def
        lower_char_def ALLOWED_EXTENSIONS_def)
  have s: "save_result example_env = Saved" by (simp add: example_env_def)
  show "\<exists>status body fs1 evs.
      generate_3d_model example_env ?req empty_fs
        = (Json status body, fs1, Staged ''3f2b8c1e-5d4a-4e6f-9a7b-0c1d2e3f4a5b_cat.PNG'' # evs) \<and>
      (status = 200 \<or> status = 500)"
  proof -
    have n: "uuid4 example_env @ ''_'' @ secure_filename example_env (the (file_part ?req)) =
             ''3f2b8c1e-5d4a-4e6f-9a7b-0c1d2e3f4a5b_cat.PNG''"
      by (simp add: example_env_def)
    from upload_validation [of ?req example_env empty_fs]
    have "\<exists>status body fs1 evs.
      generate_3d_model example_env ?req empty_fs
        = (Json status body, fs1,
           Staged (uuid4 example_env @ ''_'' @ secure_filename example_env (the (file_part ?req))) # evs) \<and>
      (status = 200 \<or> status = 500)"
      by (simp only: small yes s if_False save_outcome.case)
    then show ?thesis unfolding n .
  qed
qed

text \<open>
  Claim C2, at an accepted upload whose \<open>file.save\<close> raises after creating the destination
  (the disk is full). Line 120 stands before the \<open>try\<close> of line 122, so the exception escapes
  the handler without the \<open>finally\<close> block of lines 161 to 164 being entered, and the staged
  file is still in the upload folder when the request completes. The URL handler writes
  its staged file inside the \<open>try\<close>.
\<close>

theorem upload_save_failure_leaves_file:
  "generate_3d_model disk_full_env example_upload empty_fs =
     (Unhandled (Raised ''No space left on device''),
      empty_fs\<lparr>uploads := {''3f2b8c1e-5d4a-4e6f-9a7b-0c1d2e3f4a5b_cat.PNG''}\<rparr>,
      [Staged ''3f2b8c1e-5d4a-4e6f-9a7b-0c1d2e3f4a5b_cat.PNG''])"
  by (simp add: disk_full_env_def example_env_def example_upload_def empty_fs_def
      generate_3d_model_def MAX_CONTENT_LENGTH_def string_defs Let_def)


text \<open>
  Claim C3, at a request whose image download fails. The \<open>except\<close> block builds the 500
  answer with \<open>error\<close> and \<open>message\<close>, but the \<open>finally\<close> block then reads \<open>image_path\<close>, which
  line 195 has not assigned yet: \<open>UnboundLocalError\<close> escapes the handler in place of the
  JSON answer. Nothing is written to either folder and no effect is performed.
\<close>

theorem url_download_failure_escapes:
  "generate_from_url offline_env
     (Inr (VDict [(''image_url'', VStr ''http://no-such-host.invalid/cat.png'')])) empty_fs =
   (Unhandled UnboundLocalError, empty_fs, [])"
  by (rule url_download_failure_unbound) (simp_all add: offline_env_def)

text \<open>
  Claim C4, at a download request for the format tag \<open>obj\<close> whose job ID is the name of a
  stored GLB file. After the example upload the output folder holds the regular file
  \<open>{job_id}.glb\<close>; \<open>os.path.exists\<close> holds for it, \<open>os.listdir\<close> raises \<open>NotADirectoryError\<close>,
  and the exception escapes the handler where the claim has a 404 answer.
\<close>

theorem download_obj_of_glb_name_escapes:
  "download_model (fst (snd (generate_3d_model example_env example_upload empty_fs)))
     ''3f2b8c1e-5d4a-4e6f-9a7b-0c1d2e3f4a5b.glb'' ''obj'' = Unhandled NotADirectoryError"
  by (simp add: example_upload_run download_model_def find_entry_def)

text \<open>
  Claim C5. The list-models operation answers with one entry for every name in the output
  folder that ends in \<open>.glb\<close>: its job ID is the name with \<open>.glb\<close> removed, its creation
  time is the one the filesystem reports. The entries are in descending order of creation
  time: an entry created strictly later than another stands before it. The total is the
  number of entries.
\<close>

theorem list_models_newest_first:
  fixes fs :: "'f::linorder filesystem"
  assumes "ms = sorted_reverse created_at (collect_models (outputs fs))"
  shows "list_models fs =
           Json 200 [(''models'', VList (map model_json ms)),
                     (''total'', VInt (int (length ms)))] \<and>
         length ms = length (filter (\<lambda>e. endswith (d_name e) ''.glb'') (outputs fs)) \<and>
         mset (map (\<lambda>m. (m_job_id m, m_glb_url m, created_at m)) ms) =
           mset (map (\<lambda>e. (py_replace ''.glb'' [] (d_name e),
                            ''/api/download/'' @ py_replace ''.glb'' [] (d_name e) @ ''/glb'',
                            d_ctime e))
                   (filter (\<lambda>e. endswith (d_name e) ''.glb'') (outputs fs))) \<and>
         (\<forall>i j. i < length ms \<and> j < length ms \<and> created_at (ms ! i) < created_at (ms ! j)
                  \<longrightarrow> j < i)"
proof -
  have p1: "list_models fs =
           Json 200 [(''models'', VList (map model_json ms)),
                     (''total'', VInt (int (length ms)))]"
    by (simp add: list_models_def Let_def assms sorted_reverse_length)
  have p2: "length ms = length (filter (\<lambda>e. endswith (d_name e) ''.glb'') (outputs fs))"
    by (simp add: assms sorted_reverse_length collect_models_def)
  have "mset (map (\<lambda>m. (m_job_id m, m_glb_url m, created_at m)) ms) =
        image_mset (\<lambda>m. (m_job_id m, m_glb_url m, created_at m)) (mset (collect_models (outputs fs)))"
    by (simp add: assms sorted_reverse_mset)
  also have "\<dots> = mset (map (\<lambda>m. (m_job_id m, m_glb_url m, created_at m)) (collect_models (outputs fs)))"
    by simp
  also have "map (\<lambda>m. (m_job_id m, m_glb_url m, created_at m)) (collect_models (outputs fs)) =
        map (\<lambda>e. (py_replace ''.glb'' [] (d_name e),
                          ''/api/download/'' @ py_replace ''.glb'' [] (d_name e) @ ''/glb'',
                          d_ctime e))
                 (filter (\<lambda>e. endswith (d_name e) ''.glb'') (outputs fs))"
    by (simp add: collect_models_def Let_def)
  finally have p3: "mset (map (\<lambda>m. (m_job_id m, m_glb_url m, created_at m)) ms) =
         mset (map (\<lambda>e. (py_replace ''.glb'' [] (d_name e),
                          ''/api/download/'' @ py_replace ''.glb'' [] (d_name e) @ ''/glb'',
                          d_ctime e))
                 (filter (\<lambda>e. endswith (d_name e) ''.glb'') (outputs fs)))" .
  have d: "sorted_wrt (\<lambda>x y. created_at y \<le> created_at x) ms"
    unfolding assms by (rule sorted_reverse_descending)
  have p4: "\<forall>i j. i < length ms \<and> j < length ms \<and> created_at (ms ! i) < created_at (ms ! j) \<longrightarrow> j < i"
  proof (intro allI impI)
    fix i j
    assume a: "i < length ms \<and> j < length ms \<and> created_at (ms ! i) < created_at (ms ! j)"
    show "j < i"
    proof (rule ccontr)
      assume "\<not> j < i"
      then have "i = j \<or> i < j" by auto
      then show False
      proof
        assume "i = j" with a show False by simp
      next
        assume "i < j"
        with d a have "created_at (ms ! j) \<le> created_at (ms ! i)"
          by (simp add: sorted_wrt_iff_nth_less)
        with a show False by (auto dest: leD)
      qed
    qed
  qed
  from p1 p2 p3 p4 show ?thesis by (intro conjI)
qed

text \<open>The claim at the example folder: \<open>b.glb\<close> (created at 2) before \<open>a.glb\<close> (created at 1).\<close>

theorem list_models_newest_first_witness:
  "list_models example_listing =
     Json 200 [(''models'', VList [VDict [(''job_id'', VStr ''b''), (''glb_url'', VStr ''/api/download/b/glb''),
                                             (''created_at'', VFloat 2)],
                                      VDict [(''job_id'', VStr ''a''), (''glb_url'', VStr ''/api/download/a/glb''),
                                             (''created_at'', VFloat 1)]]),
               (''total'', VInt 2)] \<and>
   created_at ([Model ''b'' ''/api/download/b/glb'' 2, Model ''a'' ''/api/download/a/glb'' (1::int)] ! 1)
     < created_at ([Model ''b'' ''/api/download/b/glb'' 2, Model ''a'' ''/api/download/a/glb'' (1::int)] ! 0) \<and>
   (0::nat) < 1"
proof -
  let ?ms = "[Model ''b'' ''/api/download/b/glb'' 2, Model ''a'' ''/api/download/a/glb'' (1::int)]"
  have ms: "?ms = sorted_reverse created_at (collect_models (outputs example_listing))"
    by (simp add: example_listing_models)
  note th = list_models_newest_first [OF ms]
  have "list_models example_listing =
          Json 200 [(''models'', VList (map model_json ?ms)), (''total'', VInt (int (length ?ms)))]"
    using th by (rule conjunct1)
  moreover have h: "(1::nat) < length ?ms \<and> (0::nat) < length ?ms \<and> created_at (?ms ! 1) < created_at (?ms ! 0)"
    by simp
  moreover have "(0::nat) < 1" using th h by blast
  ultimately show ?thesis by (simp add: model_json_def)
qed

text \<open>
  Claim C6. A generate request (either variant) that asks for \<open>obj\<close> and succeeds answers
  with exactly \<open>job_id\<close>, \<open>status\<close> \<open>completed\<close>, \<open>glb_url\<close> and \<open>obj_url\<close>. The \<open>obj_url\<close> is a path
  of the download route for this job ID and the format tag \<open>obj\<close>; the converter's
  subdirectory is named after the base name of the GLB, which is the job ID; and the
  download operation then sends a file of that subdirectory whose name ends in \<open>.obj\<close>.
  The job ID has the shape of a UUID string.
\<close>

theorem obj_request_downloadable:
  fixes env :: "'f::zero env"
  assumes "uuid_shape (uuid4 env)"
    and "(py_lower (dict_get (form_fields req) ''output_format'' ''glb'') = ''obj'' \<and>
          generate_3d_model env req fs = (Json 200 body, fs1, evs)) \<or>
         (data_get (VDict d) ''output_format'' (VStr ''glb'') = VStr v \<and> py_lower v = ''obj'' \<and>
          generate_from_url env (Inr (VDict d)) fs = (Json 200 body, fs1, evs))"
  shows "body = [(''job_id'', VStr (uuid4 env)), (''status'', VStr ''completed''),
                 (''glb_url'', VStr (''/api/download/'' @ uuid4 env @ ''/glb'')),
                 (''obj_url'', VStr (''/api/download/'' @ uuid4 env @ ''/obj''))] \<and>
         route_download (''/api/download/'' @ uuid4 env @ ''/obj'') = Some (uuid4 env, ''obj'') \<and>
         fst (py_splitext (py_basename (uuid4 env @ ''.glb''))) = uuid4 env \<and>
         (\<exists>f. download_model fs1 (uuid4 env) ''obj'' = Attachment [uuid4 env, f] (uuid4 env @ ''.obj'') \<and>
              endswith f ''.obj'')"
proof -
  let ?j = "uuid4 env"
  from uuid_shape_chars [OF assms(1)] have c: "?j \<noteq> []" "CHR ''/'' \<notin> set ?j" "CHR ''.'' \<notin> set ?j"
    by simp_all
  have base: "fst (py_splitext (py_basename (?j @ ''.glb''))) = ?j"
    using c by (simp add: glb_base_name)
  have route: "route_download (''/api/download/'' @ ?j @ ''/obj'') = Some (?j, ''obj'')"
    using route_download_url [of ?j "''obj''"] c by simp
  have "\<exists>ip params outs evs1. generation_steps env ip params ?j ''obj'' outs = (Inr body, outputs fs1, evs1)"
    using assms(2)
  proof
    assume h: "py_lower (dict_get (form_fields req) ''output_format'' ''glb'') = ''obj'' \<and>
          generate_3d_model env req fs = (Json 200 body, fs1, evs)"
    then have run: "generate_3d_model env req fs = (Json 200 body, fs1, evs)" by simp
    from generate_3d_model_outcomes [OF run] obtain filename params r outs1 evs1 where
      g: "generation_steps env (uuid4 env @ ''_'' @ secure_filename env filename) params (uuid4 env)
              (py_lower (dict_get (form_fields req) ''output_format'' ''glb'')) (outputs fs) = (r, outs1, evs1)" and
      r: "Json 200 body = (case r of Inr body \<Rightarrow> Json 200 body | Inl e \<Rightarrow> Json 500 (upload_error_body env e))" and
      f: "fs1 = fs\<lparr>uploads := uploads fs - {uuid4 env @ ''_'' @ secure_filename env filename}, outputs := outs1\<rparr>"
      by blast
    from r have "r = Inr body" by (cases r) auto
    with g h f show ?thesis by auto
  next
    assume h: "data_get (VDict d) ''output_format'' (VStr ''glb'') = VStr v \<and> py_lower v = ''obj'' \<and>
          generate_from_url env (Inr (VDict d)) fs = (Json 200 body, fs1, evs)"
    then have run: "generate_from_url env (Inr (VDict d)) fs = (Json 200 body, fs1, evs)" by simp
    from generate_from_url_outcomes [OF run] obtain url s r outs1 evs1 where
      s: "data_get (VDict d) ''output_format'' (VStr ''glb'') = VStr s" and
      g: "generation_steps env (uuid4 env @ ''.'' @ url_ext url) (parse_json_params (VDict d)) (uuid4 env)
              (py_lower s) (outputs fs) = (r, outs1, evs1)" and
      r: "Json 200 body = (case r of Inr b \<Rightarrow> Json 200 b | Inl e \<Rightarrow> Json 500 (url_error_body env e))" and
      f: "fs1 = fs\<lparr>uploads := uploads fs - {uuid4 env @ ''.'' @ url_ext url}, outputs := outs1\<rparr>"
      by auto
    from r have "r = Inr body" by (cases r) auto
    moreover from h s have "py_lower s = ''obj''" by simp
    ultimately show ?thesis using g f by auto
  qed
  then obtain ip params outs evs1 where
    g: "generation_steps env ip params ?j ''obj'' outs = (Inr body, outputs fs1, evs1)" by blast
  from generation_steps_obj_success [OF g] obtain p outs1 where
    b: "body = [(''job_id'', VStr ?j), (''status'', VStr ''completed''),
                 (''glb_url'', VStr (''/api/download/'' @ ?j @ ''/glb'')),
                 (''obj_url'', VStr (''/api/download/'' @ ?j @ ''/obj''))]" and
    cv: "convert_glb_to_obj env (?j @ ''.glb'') outs1 = (Inr p, outputs fs1)"
    by blast
  from convert_glb_to_obj_success [OF cv base] obtain t ns where
    "find_entry ?j (outputs fs1) = Some (Dirent ?j t (Directory ns))" "?j @ ''.obj'' \<in> set ns"
    by blast
  from download_model_obj [OF this endswith_append c(3)]
  have "\<exists>f. download_model fs1 ?j ''obj'' = Attachment [?j, f] (?j @ ''.obj'') \<and> endswith f ''.obj''"
    by blast
  with b route base show ?thesis by simp
qed

text \<open>The claim at the example upload, which asks for \<open>OBJ\<close>.\<close>

theorem obj_request_downloadable_witness:
  "\<exists>f. download_model (fst (snd (generate_3d_model example_env example_upload empty_fs)))
          ''3f2b8c1e-5d4a-4e6f-9a7b-0c1d2e3f4a5b'' ''obj'' =
        Attachment [''3f2b8c1e-5d4a-4e6f-9a7b-0c1d2e3f4a5b'', f] ''3f2b8c1e-5d4a-4e6f-9a7b-0c1d2e3f4a5b.obj'' \<and>
        endswith f ''.obj''"
proof -
  have o: "py_lower (dict_get (form_fields example_upload) ''output_format'' ''glb'') = ''obj''"
    by (simp add: example_upload_def dict_get_def py_lower_def lower_char_def)
  note th = obj_request_downloadable [OF example_uuid_shape disjI1 [OF conjI [OF o example_upload_run]]]
  note a = th [THEN conjunct2, THEN conjunct2, THEN conjunct2, unfolded example_uuid]
  show ?thesis using a by (simp add: example_upload_run)
qed

text \<open>
  Claim C7. When the Gradio client can be built and the staged image handed to it, a
  generate request that gets as far as the remote model calls it exactly once, with the
  following arguments. On the upload path (request accepted and saved, the supplied
  \<open>steps\<close>, \<open>guidance_scale\<close> and \<open>seed\<close> readable as numbers): \<open>steps\<close> and \<open>seed\<close> are the
  integers \<open>int\<close> reads from the form values (30 and 1234 when the field is missing),
  \<open>guidance_scale\<close> is the float \<open>float\<close> reads (the float of 5 when missing), and
  \<open>remove_background\<close> and \<open>randomize_seed\<close> are booleans that are true exactly when the
  lowercased form value is \<open>true\<close> (true when missing). A supplied \<open>steps\<close>, \<open>guidance_scale\<close>
  or \<open>seed\<close> that \<open>int\<close> or \<open>float\<close> refuses is answered 500 and the remote model is not called.
  On the URL path (image downloaded and staged, \<open>output_format\<close> a string): the arguments are
  the values of the JSON body as they are, whatever their type, and 30, 5, 1234, true, true
  for the keys that are missing.
\<close>

theorem parameter_coercion:
  fixes env :: "'f::zero env"
  assumes "client_fails env = None" and "handle_file_fails env = None"
  shows
    "(\<not> upload_rejected_spec req \<and> body_size req \<le> MAX_CONTENT_LENGTH \<and> save_result env = Saved \<and>
      (case map_of (form_fields req) ''steps'' of
         None \<Rightarrow> st = 30 | Some s \<Rightarrow> int_of_str env s = Some st) \<and>
      (case map_of (form_fields req) ''guidance_scale'' of
         None \<Rightarrow> gs = float_of_int env 5 | Some s \<Rightarrow> float_of_str env s = Some gs) \<and>
      (case map_of (form_fields req) ''seed'' of
         None \<Rightarrow> sd = 1234 | Some s \<Rightarrow> int_of_str env s = Some sd)
      \<longrightarrow>
      predict_calls (snd (snd (generate_3d_model env req fs))) =
        [\<lparr>image = uuid4 env @ ''_'' @ secure_filename env (the (file_part req)),
          steps = VInt st,
          guidance_scale = VFloat gs,
          seed = VInt sd,
          octree_resolution = VInt 256,
          check_box_rembg =
            VBool (case map_of (form_fields req) ''remove_background'' of
                     None \<Rightarrow> True | Some s \<Rightarrow> py_lower s = ''true''),
          num_chunks = VInt 8000,
          randomize_seed =
            VBool (case map_of (form_fields req) ''randomize_seed'' of
                     None \<Rightarrow> True | Some s \<Rightarrow> py_lower s = ''true'')\<rparr>]) \<and>
     (\<not> upload_rejected_spec req \<and> body_size req \<le> MAX_CONTENT_LENGTH \<and> save_result env = Saved \<and>
      ((\<exists>s. map_of (form_fields req) ''steps'' = Some s \<and> int_of_str env s = None) \<or>
       (\<exists>s. map_of (form_fields req) ''guidance_scale'' = Some s \<and> float_of_str env s = None) \<or>
       (\<exists>s. map_of (form_fields req) ''seed'' = Some s \<and> int_of_str env s = None))
      \<longrightarrow>
      predict_calls (snd (snd (generate_3d_model env req fs))) = [] \<and>
      (\<exists>body. fst (generate_3d_model env req fs) = Json 500 body)) \<and>
     (map_of d ''image_url'' = Some (VStr url) \<and> http_get_fails env (VStr url) = None \<and>
      open_fails env = None \<and> write_fails env = None \<and>
      data_get (VDict d) ''output_format'' (VStr ''glb'') = VStr fmt
      \<longrightarrow>
      predict_calls (snd (snd (generate_from_url env (Inr (VDict d)) fs))) =
        [\<lparr>image = uuid4 env @ ''.'' @ url_ext url,
          steps = (case map_of d ''steps'' of None \<Rightarrow> VInt 30 | Some v \<Rightarrow> v),
          guidance_scale = (case map_of d ''guidance_scale'' of None \<Rightarrow> VInt 5 | Some v \<Rightarrow> v),
          seed = (case map_of d ''seed'' of None \<Rightarrow> VInt 1234 | Some v \<Rightarrow> v),
          octree_resolution = VInt 256,
          check_box_rembg = (case map_of d ''remove_background'' of None \<Rightarrow> VBool True | Some v \<Rightarrow> v),
          num_chunks = VInt 8000,
          randomize_seed = (case map_of d ''randomize_seed'' of None \<Rightarrow> VBool True | Some v \<Rightarrow> v)\<rparr>])"
proof (intro conjI impI)
  let ?u = "uuid4 env @ ''_'' @ secure_filename env (the (file_part req))"
  let ?fm = "form_fields req"
  assume h: "\<not> upload_rejected_spec req \<and> body_size req \<le> MAX_CONTENT_LENGTH \<and> save_result env = Saved \<and>
      (case map_of (form_fields req) ''steps'' of
         None \<Rightarrow> st = 30 | Some s \<Rightarrow> int_of_str env s = Some st) \<and>
      (case map_of (form_fields req) ''guidance_scale'' of
         None \<Rightarrow> gs = float_of_int env 5 | Some s \<Rightarrow> float_of_str env s = Some gs) \<and>
      (case map_of (form_fields req) ''seed'' of
         None \<Rightarrow> sd = 1234 | Some s \<Rightarrow> int_of_str env s = Some sd)"
  then have nr: "\<not> upload_rejected_spec req" and sz: "body_size req \<le> MAX_CONTENT_LENGTH"
    and sv: "save_result env = Saved" by simp_all
  from h have c: "form_int env ?fm ''steps'' 30 = Inr st"
    "form_float env ?fm ''guidance_scale'' 5 = Inr gs"
    "form_int env ?fm ''seed'' 1234 = Inr sd"
    by (auto simp: form_int_def form_float_def split: option.splits)
  let ?params = "[(''steps'', VInt st), (''guidance_scale'', VFloat gs), (''seed'', VInt sd),
       (''remove_background'', VBool (py_lower (dict_get ?fm ''remove_background'' ''true'') = ''true'')),
       (''randomize_seed'', VBool (py_lower (dict_get ?fm ''randomize_seed'' ''true'') = ''true''))]"
  have p: "parse_form_params env ?fm = Inr ?params"
    by (simp add: parse_form_params_def c)
  obtain r outs1 evs1 where
    g: "generation_steps env ?u ?params (uuid4 env)
          (py_lower (dict_get ?fm ''output_format'' ''glb'')) (outputs fs) = (r, outs1, evs1)"
    using prod_cases3 by blast
  then have t: "upload_try env ?fm (uuid4 env) ?u (outputs fs) = (r, outs1, evs1)"
    by (simp add: upload_try_parsed [OF p])
  from generate_3d_model_accepted [OF nr sz refl t] sv
  have e: "snd (snd (generate_3d_model env req fs)) = Staged ?u # evs1 @ [Removed ?u]" by simp
  from generation_steps_predict_calls [OF assms, of ?u ?params "uuid4 env"
      "py_lower (dict_get ?fm ''output_format'' ''glb'')" "outputs fs"] g
  have "predict_calls evs1 =
          [\<lparr>image = ?u,
            steps = dict_get ?params ''steps'' (VInt 30),
            guidance_scale = dict_get ?params ''guidance_scale'' (VInt 5),
            seed = dict_get ?params ''seed'' (VInt 1234),
            octree_resolution = dict_get ?params ''octree_resolution'' (VInt 256),
            check_box_rembg = dict_get ?params ''remove_background'' (VBool True),
            num_chunks = dict_get ?params ''num_chunks'' (VInt 8000),
            randomize_seed = dict_get ?params ''randomize_seed'' (VBool True)\<rparr>]"
    by simp
  then have "predict_calls evs1 =
          [\<lparr>image = ?u, steps = VInt st, guidance_scale = VFloat gs, seed = VInt sd,
            octree_resolution = VInt 256,
            check_box_rembg = VBool (py_lower (dict_get ?fm ''remove_background'' ''true'') = ''true''),
            num_chunks = VInt 8000,
            randomize_seed = VBool (py_lower (dict_get ?fm ''randomize_seed'' ''true'') = ''true'')\<rparr>]"
    by (simp add: dict_get_def)
  moreover have "(py_lower (dict_get ?fm ''remove_background'' ''true'') = ''true'') =
        (case map_of ?fm ''remove_background'' of None \<Rightarrow> True | Some s \<Rightarrow> py_lower s = ''true'')"
    by (simp add: dict_get_def py_lower_true split: option.splits)
  moreover have "(py_lower (dict_get ?fm ''randomize_seed'' ''true'') = ''true'') =
        (case map_of ?fm ''randomize_seed'' of None \<Rightarrow> True | Some s \<Rightarrow> py_lower s = ''true'')"
    by (simp add: dict_get_def py_lower_true split: option.splits)
  ultimately show "predict_calls (snd (snd (generate_3d_model env req fs))) =
        [\<lparr>image = ?u, steps = VInt st, guidance_scale = VFloat gs, seed = VInt sd,
          octree_resolution = VInt 256,
          check_box_rembg =
            VBool (case map_of (form_fields req) ''remove_background'' of
                     None \<Rightarrow> True | Some s \<Rightarrow> py_lower s = ''true''),
          num_chunks = VInt 8000,
          randomize_seed =
            VBool (case map_of (form_fields req) ''randomize_seed'' of
                     None \<Rightarrow> True | Some s \<Rightarrow> py_lower s = ''true'')\<rparr>]"
    unfolding e by (simp add: predict_calls_append)
next
  let ?u = "uuid4 env @ ''_'' @ secure_filename env (the (file_part req))"
  let ?fm = "form_fields req"
  assume h: "\<not> upload_rejected_spec req \<and> body_size req \<le> MAX_CONTENT_LENGTH \<and> save_result env = Saved \<and>
      ((\<exists>s. map_of (form_fields req) ''steps'' = Some s \<and> int_of_str env s = None) \<or>
       (\<exists>s. map_of (form_fields req) ''guidance_scale'' = Some s \<and> float_of_str env s = None) \<or>
       (\<exists>s. map_of (form_fields req) ''seed'' = Some s \<and> int_of_str env s = None))"
  then have nr: "\<not> upload_rejected_spec req" and sz: "body_size req \<le> MAX_CONTENT_LENGTH"
    and sv: "save_result env = Saved" by simp_all
  from h have "form_int env ?fm ''steps'' 30 = Inl ValueError \<or>
       form_float env ?fm ''guidance_scale'' 5 = Inl ValueError \<or>
       form_int env ?fm ''seed'' 1234 = Inl ValueError"
    by (auto simp: form_int_def form_float_def)
  then have "\<exists>e. parse_form_params env ?fm = Inl e"
    by (cases "form_int env ?fm ''steps'' 30"; cases "form_float env ?fm ''guidance_scale'' 5";
        cases "form_int env ?fm ''seed'' 1234") (simp_all add: parse_form_params_def)
  then obtain e where "parse_form_params env ?fm = Inl e" ..
  then have t: "upload_try env ?fm (uuid4 env) ?u (outputs fs) = (Inl e, outputs fs, [])"
    by (rule upload_try_parse_error)
  from generate_3d_model_accepted [OF nr sz refl t] sv
  have "generate_3d_model env req fs =
          (Json 500 (upload_error_body env e), fs\<lparr>uploads := uploads fs - {?u}, outputs := outputs fs\<rparr>,
           [Staged ?u, Removed ?u])"
    by simp
  then show "predict_calls (snd (snd (generate_3d_model env req fs))) = []"
    and "\<exists>body. fst (generate_3d_model env req fs) = Json 500 body"
    by simp_all
next
  let ?ip = "uuid4 env @ ''.'' @ url_ext url"
  assume h: "map_of d ''image_url'' = Some (VStr url) \<and> http_get_fails env (VStr url) = None \<and>
      open_fails env = None \<and> write_fails env = None \<and>
      data_get (VDict d) ''output_format'' (VStr ''glb'') = VStr fmt"
  then have m: "map_of d ''image_url'' = Some (VStr url)" and hg: "http_get_fails env (VStr url) = None"
    and op: "open_fails env = None" and wr: "write_fails env = None"
    and f: "data_get (VDict d) ''output_format'' (VStr ''glb'') = VStr fmt"
    by simp_all
  obtain r outs1 evs1 where
    g: "generation_steps env ?ip (parse_json_params (VDict d)) (uuid4 env) (py_lower fmt) (outputs fs)
          = (r, outs1, evs1)"
    using prod_cases3 by blast
  have e: "snd (snd (generate_from_url env (Inr (VDict d)) fs)) =
           Staged ?ip # evs1 @ [Removed ?ip]"
    by (simp add: generate_from_url_dict [OF m] url_try_ok [OF hg op wr f refl g] url_finish_bound)
  from generation_steps_predict_calls [OF assms, of ?ip "parse_json_params (VDict d)" "uuid4 env"
      "py_lower fmt" "outputs fs"] g
  have "predict_calls evs1 =
          [\<lparr>image = ?ip,
            steps = dict_get (parse_json_params (VDict d)) ''steps'' (VInt 30),
            guidance_scale = dict_get (parse_json_params (VDict d)) ''guidance_scale'' (VInt 5),
            seed = dict_get (parse_json_params (VDict d)) ''seed'' (VInt 1234),
            octree_resolution = dict_get (parse_json_params (VDict d)) ''octree_resolution'' (VInt 256),
            check_box_rembg = dict_get (parse_json_params (VDict d)) ''remove_background'' (VBool True),
            num_chunks = dict_get (parse_json_params (VDict d)) ''num_chunks'' (VInt 8000),
            randomize_seed = dict_get (parse_json_params (VDict d)) ''randomize_seed'' (VBool True)\<rparr>]"
    by simp
  then show "predict_calls (snd (snd (generate_from_url env (Inr (VDict d)) fs))) =
        [\<lparr>image = ?ip,
          steps = (case map_of d ''steps'' of None \<Rightarrow> VInt 30 | Some v \<Rightarrow> v),
          guidance_scale = (case map_of d ''guidance_scale'' of None \<Rightarrow> VInt 5 | Some v \<Rightarrow> v),
          seed = (case map_of d ''seed'' of None \<Rightarrow> VInt 1234 | Some v \<Rightarrow> v),
          octree_resolution = VInt 256,
          check_box_rembg = (case map_of d ''remove_background'' of None \<Rightarrow> VBool True | Some v \<Rightarrow> v),
          num_chunks = VInt 8000,
          randomize_seed = (case map_of d ''randomize_seed'' of None \<Rightarrow> VBool True | Some v \<Rightarrow> v)\<rparr>]"
    unfolding e
    by (simp add: predict_calls_append parse_json_params_def dict_get_def data_get_def
        split: option.splits)
qed

text \<open>
  The claim at an upload with \<open>steps\<close> 7, \<open>guidance_scale\<close> 6 and \<open>remove_background\<close> False, at
  an upload with \<open>steps\<close> \<open>seven\<close>, and at the example URL request, whose \<open>steps\<close> is the
  string \<open>40\<close>.
\<close>

theorem parameter_coercion_witness:
  "predict_calls (snd (snd (generate_3d_model example_env example_upload_params empty_fs))) =
     [\<lparr>image = ''3f2b8c1e-5d4a-4e6f-9a7b-0c1d2e3f4a5b_cat.png'',
       steps = VInt 7, guidance_scale = VFloat 6, seed = VInt 1234,
       octree_resolution = VInt 256, check_box_rembg = VBool False,
       num_chunks = VInt 8000, randomize_seed = VBool True\<rparr>] \<and>
   predict_calls (snd (snd (generate_3d_model example_env
       \<lparr>body_size = 10240, file_part = Some ''cat.png'', form_fields = [(''steps'', ''seven'')]\<rparr>
       empty_fs))) = [] \<and>
   (\<exists>body. fst (generate_3d_model example_env
       \<lparr>body_size = 10240, file_part = Some ''cat.png'', form_fields = [(''steps'', ''seven'')]\<rparr>
       empty_fs) = Json 500 body) \<and>
   predict_calls (snd (snd (generate_from_url example_env (Inr (VDict example_url_fields)) empty_fs))) =
     [\<lparr>image = ''3f2b8c1e-5d4a-4e6f-9a7b-0c1d2e3f4a5b.webp'',
       steps = VStr ''40'', guidance_scale = VInt 5, seed = VInt 1234,
       octree_resolution = VInt 256, check_box_rembg = VBool True,
       num_chunks = VInt 8000, randomize_seed = VBool True\<rparr>]"
proof -
  let ?bad = "\<lparr>body_size = 10240, file_part = Some ''cat.png'', form_fields = [(''steps'', ''seven'')]\<rparr>"
  have c: "client_fails example_env = None" and h: "handle_file_fails example_env = None"
    by (simp_all add: example_env_def)
  note th = parameter_coercion [where env = example_env, OF c h]
  have ok: "\<not> upload_rejected_spec example_upload_params"
    by (simp add: example_upload_params_def upload_rejected_spec_iff allowed_file_def
        py_rsplit1_def py_lower_def lower_char_def ALLOWED_EXTENSIONS_def)
  have ok2: "\<not> upload_rejected_spec ?bad"
    by (simp add: upload_rejected_spec_iff allowed_file_def
        py_rsplit1_def py_lower_def lower_char_def ALLOWED_EXTENSIONS_def)
  have p1: "\<not> upload_rejected_spec example_upload_params \<and>
      body_size example_upload_params \<le> MAX_CONTENT_LENGTH \<and> save_result example_env = Saved \<and>
      (case map_of (form_fields example_upload_params) ''steps'' of
         None \<Rightarrow> (7::int) = 30 | Some s \<Rightarrow> int_of_str example_env s = Some 7) \<and>
      (case map_of (form_fields example_upload_params) ''guidance_scale'' of
         None \<Rightarrow> (6::int) = float_of_int example_env 5 | Some s \<Rightarrow> float_of_str example_env s = Some 6) \<and>
      (case map_of (form_fields example_upload_params) ''seed'' of
         None \<Rightarrow> (1234::int) = 1234 | Some s \<Rightarrow> int_of_str example_env s = Some 1234)"
    using ok by (simp add: example_upload_params_def example_env_def MAX_CONTENT_LENGTH_def)
  have p2: "\<not> upload_rejected_spec ?bad \<and> body_size ?bad \<le> MAX_CONTENT_LENGTH \<and>
      save_result example_env = Saved \<and>
      ((\<exists>s. map_of (form_fields ?bad) ''steps'' = Some s \<and> int_of_str example_env s = None) \<or>
       (\<exists>s. map_of (form_fields ?bad) ''guidance_scale'' = Some s \<and> float_of_str example_env s = None) \<or>
       (\<exists>s. map_of (form_fields ?bad) ''seed'' = Some s \<and> int_of_str example_env s = None))"
    using ok2 by (simp add: example_env_def MAX_CONTENT_LENGTH_def)
  have p3: "map_of example_url_fields ''image_url'' = Some (VStr ''https://example.org/cat.webp?size=2'') \<and>
      http_get_fails example_env (VStr ''https://example.org/cat.webp?size=2'') = None \<and>
      open_fails example_env = None \<and> write_fails example_env = None \<and>
      data_get (VDict example_url_fields) ''output_format'' (VStr ''glb'') = VStr ''STL''"
    by (simp add: example_url_fields_def example_env_def data_get_def dict_get_def)
  note a1 = th [where req = example_upload_params and st = 7 and gs = 6 and sd = 1234
                  and fs = empty_fs, THEN conjunct1, THEN mp, OF p1]
  note a2 = th [where req = ?bad and fs = empty_fs, THEN conjunct2, THEN conjunct1, THEN mp, OF p2]
  note a3 = th [where d = example_url_fields and fs = empty_fs, THEN conjunct2, THEN conjunct2,
                  THEN mp, OF p3]
  have e1: "predict_calls (snd (snd (generate_3d_model example_env example_upload_params empty_fs))) =
     [\<lparr>image = ''3f2b8c1e-5d4a-4e6f-9a7b-0c1d2e3f4a5b_cat.png'',
       steps = VInt 7, guidance_scale = VFloat 6, seed = VInt 1234,
       octree_resolution = VInt 256, check_box_rembg = VBool False,
       num_chunks = VInt 8000, randomize_seed = VBool True\<rparr>]"
    unfolding a1
    by (simp add: example_upload_params_def example_env_def py_lower_def lower_char_def)
  have e3: "predict_calls (snd (snd (generate_from_url example_env (Inr (VDict example_url_fields)) empty_fs))) =
     [\<lparr>image = ''3f2b8c1e-5d4a-4e6f-9a7b-0c1d2e3f4a5b.webp'',
       steps = VStr ''40'', guidance_scale = VInt 5, seed = VInt 1234,
       octree_resolution = VInt 256, check_box_rembg = VBool True,
       num_chunks = VInt 8000, randomize_seed = VBool True\<rparr>]"
    unfolding a3
    by (simp add: example_url_fields_def example_env_def url_ext_spec inferred_extension_spec_def)
  from e1 a2 e3 show ?thesis by (simp only: simp_thms)
qed

text \<open>
  Claim C8 as stated fails: the example upload supplies \<open>octree_resolution\<close> 512 and
  \<open>num_chunks\<close> 4000 in its form fields, and the one call of the remote model receives 256
  and 8000.
\<close>

theorem octree_forwarded_counterexample:
  "map_of (form_fields example_upload) ''octree_resolution'' = Some ''512'' \<and>
   map_of (form_fields example_upload) ''num_chunks'' = Some ''4000'' \<and>
   snd (snd (generate_3d_model example_env example_upload empty_fs)) =
     [Staged ''3f2b8c1e-5d4a-4e6f-9a7b-0c1d2e3f4a5b_cat.PNG'',
      Predict
       \<lparr>image = ''3f2b8c1e-5d4a-4e6f-9a7b-0c1d2e3f4a5b_cat.PNG'',
          steps = VInt 7, guidance_scale = VFloat 5, seed = VInt 1234,
          octree_resolution = VInt 256, check_box_rembg = VBool False,
          num_chunks = VInt 8000, randomize_seed = VBool True\<rparr>,
      Convert ''3f2b8c1e-5d4a-4e6f-9a7b-0c1d2e3f4a5b.glb'',
      Removed ''3f2b8c1e-5d4a-4e6f-9a7b-0c1d2e3f4a5b_cat.PNG'']"
proof (intro conjI)
  show "map_of (form_fields example_upload) ''octree_resolution'' = Some ''512''"
    by (simp add: example_upload_def)
  show "map_of (form_fields example_upload) ''num_chunks'' = Some ''4000''"
    by (simp add: example_upload_def)
  show "snd (snd (generate_3d_model example_env example_upload empty_fs)) =
     [Staged ''3f2b8c1e-5d4a-4e6f-9a7b-0c1d2e3f4a5b_cat.PNG'',
      Predict
       \<lparr>image = ''3f2b8c1e-5d4a-4e6f-9a7b-0c1d2e3f4a5b_cat.PNG'',
          steps = VInt 7, guidance_scale = VFloat 5, seed = VInt 1234,
          octree_resolution = VInt 256, check_box_rembg = VBool False,
          num_chunks = VInt 8000, randomize_seed = VBool True\<rparr>,
      Convert ''3f2b8c1e-5d4a-4e6f-9a7b-0c1d2e3f4a5b.glb'',
      Removed ''3f2b8c1e-5d4a-4e6f-9a7b-0c1d2e3f4a5b_cat.PNG'']"
    by (simp add: example_upload_run)
qed

text \<open>
  Claim C8, amended. \<open>octree_resolution\<close> and \<open>num_chunks\<close> are exposed on neither path:
  whatever the form fields or the JSON body of a generate request contain, every call of
  the remote model receives \<open>octree_resolution\<close> 256 and \<open>num_chunks\<close> 8000.
\<close>

theorem octree_and_chunks_fixed:
  fixes env :: "'f::zero env"
  assumes "generate_3d_model env req fs = (resp, fs1, evs) \<or>
           generate_from_url env body fs = (resp, fs1, evs)"
    and "Predict a \<in> set evs"
  shows "octree_resolution a = VInt 256 \<and> num_chunks a = VInt 8000"
  using assms(1)
proof
  assume h: "generate_3d_model env req fs = (resp, fs1, evs)"
  with assms(2) generate_3d_model_outcomes [of env req fs resp fs1 evs]
  obtain filename params r outs1 evs1 where
    p: "parse_form_params env (form_fields req) = Inr params" and
    g: "generation_steps env (uuid4 env @ ''_'' @ secure_filename env filename) params (uuid4 env)
          (py_lower (dict_get (form_fields req) ''output_format'' ''glb'')) (outputs fs) = (r, outs1, evs1)" and
    e: "evs = Staged (uuid4 env @ ''_'' @ secure_filename env filename) # evs1 @
                  [Removed (uuid4 env @ ''_'' @ secure_filename env filename)]"
    by blast
  from assms(2) e have "Predict a \<in> set evs1" by simp
  note a = generation_steps_predict [OF g this]
  from parse_form_params_Inr [OF p] obtain st gs sd where
    ps: "params = [(''steps'', VInt st), (''guidance_scale'', VFloat gs), (''seed'', VInt sd),
                     (''remove_background'',
                        VBool (py_lower (dict_get (form_fields req) ''remove_background'' ''true'') = ''true'')),
                     (''randomize_seed'',
                        VBool (py_lower (dict_get (form_fields req) ''randomize_seed'' ''true'') = ''true''))]"
    by blast
  show ?thesis unfolding a ps by (simp add: dict_get_def)
next
  assume h: "generate_from_url env body fs = (resp, fs1, evs)"
  with assms(2) generate_from_url_outcomes [of env body fs resp fs1 evs]
  obtain d url s r outs1 evs1 where
    g: "generation_steps env (uuid4 env @ ''.'' @ url_ext url) (parse_json_params (VDict d)) (uuid4 env)
              (py_lower s) (outputs fs) = (r, outs1, evs1)" and
    e: "evs = Staged (uuid4 env @ ''.'' @ url_ext url) # evs1 @
                  [Removed (uuid4 env @ ''.'' @ url_ext url)]"
    by blast
  from assms(2) e have "Predict a \<in> set evs1" by simp
  note a = generation_steps_predict [OF g this]
  show ?thesis unfolding a by (simp add: parse_json_params_def dict_get_def)
qed

text \<open>The amended claim at the example upload.\<close>

theorem octree_and_chunks_fixed_witness:
  "octree_resolution \<lparr>image = ''3f2b8c1e-5d4a-4e6f-9a7b-0c1d2e3f4a5b_cat.PNG'',
          steps = VInt 7, guidance_scale = VFloat 5, seed = VInt 1234,
          octree_resolution = VInt 256, check_box_rembg = VBool False,
          num_chunks = VInt 8000, randomize_seed = VBool True\<rparr> = (VInt 256 :: int pyval) \<and>
   num_chunks \<lparr>image = ''3f2b8c1e-5d4a-4e6f-9a7b-0c1d2e3f4a5b_cat.PNG'',
          steps = VInt 7, guidance_scale = VFloat 5, seed = VInt 1234,
          octree_resolution = VInt 256, check_box_rembg = VBool False,
          num_chunks = VInt 8000, randomize_seed = VBool True\<rparr> = (VInt 8000 :: int pyval)"
proof -
  let ?a0 = "\<lparr>image = ''3f2b8c1e-5d4a-4e6f-9a7b-0c1d2e3f4a5b_cat.PNG'',
          steps = VInt 7, guidance_scale = VFloat 5, seed = VInt 1234,
          octree_resolution = VInt 256, check_box_rembg = VBool False,
          num_chunks = VInt 8000, randomize_seed = VBool True\<rparr> :: int predict_args"
  have p: "Predict ?a0 \<in> set (snd (snd (generate_3d_model example_env example_upload empty_fs)))"
    by (simp add: example_upload_run)
  have r: "generate_3d_model example_env example_upload empty_fs =
             (fst (generate_3d_model example_env example_upload empty_fs),
              fst (snd (generate_3d_model example_env example_upload empty_fs)),
              snd (snd (generate_3d_model example_env example_upload empty_fs)))"
    by simp
  show ?thesis
    by (rule octree_and_chunks_fixed [where body = "Inl 400", OF disjI1 [OF r] p])
qed

text \<open>
  Claim C9. On the URL path, once the download and the opening of the staged file have
  succeeded, the one file the request stages is named \<open>{job_id}.{ext}\<close>, where \<open>ext\<close> is the
  extension inferred from the URL when that is one of png, jpg, jpeg, webp, and \<open>jpg\<close>
  otherwise (so also when nothing follows the last dot).
\<close>

theorem url_staging_name:
  fixes env :: "'f::zero env"
  assumes "map_of d ''image_url'' = Some (VStr url)"
    and "http_get_fails env (VStr url) = None" and "open_fails env = None"
    and "ext = (if inferred_extension_spec url \<in> {''png'', ''jpg'', ''jpeg'', ''webp''}
                then inferred_extension_spec url else ''jpg'')"
  shows "ext \<in> {''png'', ''jpg'', ''jpeg'', ''webp''} \<and>
         (\<exists>resp fs1 evs.
            generate_from_url env (Inr (VDict d)) fs = (resp, fs1, Staged (uuid4 env @ ''.'' @ ext) # evs) \<and>
            (\<forall>p. Staged p \<notin> set evs))"
proof -
  have e: "ext = url_ext url" using assms(4) by (simp add: url_ext_spec)
  from url_try_opened [OF assms(2,3), of "VDict d" "uuid4 env" fs]
  obtain r fs2 evs2 where
    t: "url_try env (VDict d) (VStr url) (uuid4 env) fs =
          (r, Some (uuid4 env @ ''.'' @ url_ext url), fs2, Staged (uuid4 env @ ''.'' @ url_ext url) # evs2)"
    and n: "\<forall>p. Staged p \<notin> set evs2"
    by blast
  have "generate_from_url env (Inr (VDict d)) fs =
          ((case r of Inr b \<Rightarrow> Json 200 b | Inl e \<Rightarrow> Json 500 (url_error_body env e)),
           fs2\<lparr>uploads := uploads fs2 - {uuid4 env @ ''.'' @ url_ext url}\<rparr>,
           Staged (uuid4 env @ ''.'' @ url_ext url) #
             evs2 @ (if uuid4 env @ ''.'' @ url_ext url \<in> uploads fs2
                     then [Removed (uuid4 env @ ''.'' @ url_ext url)] else []))"
    by (simp add: generate_from_url_dict [OF assms(1)] t url_finish_bound)
  with n e url_ext_allowed [of url] show ?thesis
    by (auto simp: ALLOWED_EXTENSIONS_def)
qed

text \<open>The claim at the example URL request: the file is staged as \<open>{job_id}.webp\<close>.\<close>

theorem url_staging_name_witness:
  "\<exists>resp fs1 evs.
     generate_from_url example_env (Inr (VDict example_url_fields)) empty_fs =
       (resp, fs1, Staged ''3f2b8c1e-5d4a-4e6f-9a7b-0c1d2e3f4a5b.webp'' # evs) \<and>
     (\<forall>p. Staged p \<notin> set evs)"
proof -
  have m: "map_of example_url_fields ''image_url'' = Some (VStr ''https://example.org/cat.webp?size=2'')"
    by (simp add: example_url_fields_def)
  have g: "http_get_fails example_env (VStr ''https://example.org/cat.webp?size=2'') = None"
    and ok: "open_fails example_env = None"
    by (simp_all add: example_env_def)
  have e: "''webp'' = (if inferred_extension_spec ''https://example.org/cat.webp?size=2''
                          \<in> {''png'', ''jpg'', ''jpeg'', ''webp''}
                then inferred_extension_spec ''https://example.org/cat.webp?size=2'' else ''jpg'')"
    by (simp add: inferred_extension_spec_def)
  note th = url_staging_name [where fs = empty_fs, OF m g ok e, THEN conjunct2, unfolded example_uuid]
  then show ?thesis by simp
qed

text \<open>
  Claim C10. A generate request (either variant) whose \<open>output_format\<close>, lowercased, is a
  string other than \<open>obj\<close> is a GLB-only job: the converter is not called, no JSON body of
  the answer has an \<open>obj_url\<close>, and response, folders and effects are those of the same
  request with \<open>output_format\<close> \<open>glb\<close>, so the unrecognised value raises no error of its own.
\<close>

theorem unrecognised_format_glb_only:
  fixes env :: "'f::zero env"
  shows "(py_lower (dict_get (form_fields req) ''output_format'' ''glb'') \<noteq> ''obj'' \<and>
          generate_3d_model env req fs = (resp, fs1, evs) \<longrightarrow>
            (\<forall>c. Convert c \<notin> set evs) \<and>
            (\<forall>st b. resp = Json st b \<longrightarrow> map_of b ''obj_url'' = None) \<and>
            generate_3d_model env (req\<lparr>form_fields := (''output_format'', ''glb'') # form_fields req\<rparr>) fs
              = (resp, fs1, evs)) \<and>
         (data_get (VDict d) ''output_format'' (VStr ''glb'') = VStr v \<and> py_lower v \<noteq> ''obj'' \<and>
          generate_from_url env (Inr (VDict d)) fs = (resp, fs1, evs) \<longrightarrow>
            (\<forall>c. Convert c \<notin> set evs) \<and>
            (\<forall>st b. resp = Json st b \<longrightarrow> map_of b ''obj_url'' = None) \<and>
            generate_from_url env (Inr (VDict ((''output_format'', VStr ''glb'') # d))) fs
              = (resp, fs1, evs))"
proof (intro conjI impI)
  assume h: "py_lower (dict_get (form_fields req) ''output_format'' ''glb'') \<noteq> ''obj'' \<and>
          generate_3d_model env req fs = (resp, fs1, evs)"
  then show "generate_3d_model env (req\<lparr>form_fields := (''output_format'', ''glb'') # form_fields req\<rparr>) fs
              = (resp, fs1, evs)"
    by (simp add: generate_3d_model_glb)
  from h have run: "generate_3d_model env req fs = (resp, fs1, evs)" by simp
  from generate_3d_model_outcomes [OF run]
  show "\<forall>c. Convert c \<notin> set evs"
  proof
    assume "(\<forall>a. Predict a \<notin> set evs) \<and> (\<forall>c. Convert c \<notin> set evs) \<and> (\<forall>b. resp \<noteq> Json 200 b)"
    then show ?thesis by simp
  next
    assume "\<exists>filename params r outs1 evs1.
            file_part req = Some filename \<and>
            parse_form_params env (form_fields req) = Inr params \<and>
            generation_steps env (uuid4 env @ ''_'' @ secure_filename env filename) params (uuid4 env)
              (py_lower (dict_get (form_fields req) ''output_format'' ''glb'')) (outputs fs) = (r, outs1, evs1) \<and>
            resp = (case r of Inr body \<Rightarrow> Json 200 body | Inl e \<Rightarrow> Json 500 (upload_error_body env e)) \<and>
            fs1 = fs\<lparr>uploads := uploads fs - {uuid4 env @ ''_'' @ secure_filename env filename}, outputs := outs1\<rparr> \<and>
            evs = Staged (uuid4 env @ ''_'' @ secure_filename env filename) # evs1 @
                  [Removed (uuid4 env @ ''_'' @ secure_filename env filename)]"
    then obtain filename params r outs1 evs1 where
      g: "generation_steps env (uuid4 env @ ''_'' @ secure_filename env filename) params (uuid4 env)
              (py_lower (dict_get (form_fields req) ''output_format'' ''glb'')) (outputs fs) = (r, outs1, evs1)" and
      e: "evs = Staged (uuid4 env @ ''_'' @ secure_filename env filename) # evs1 @
                  [Removed (uuid4 env @ ''_'' @ secure_filename env filename)]"
      by blast
    from h generation_steps_glb_only [OF _ g] e show ?thesis by simp
  qed
  from generate_3d_model_outcomes [OF run]
  show "\<forall>st b. resp = Json st b \<longrightarrow> map_of b ''obj_url'' = None"
  proof
    assume n: "(\<forall>a. Predict a \<notin> set evs) \<and> (\<forall>c. Convert c \<notin> set evs) \<and> (\<forall>b. resp \<noteq> Json 200 b)"
    show ?thesis
    proof (cases "MAX_CONTENT_LENGTH < body_size req")
      case True
      with run generate_3d_model_too_large [OF True, of env fs] show ?thesis by auto
    next
      case small: False
      then have sz: "body_size req \<le> MAX_CONTENT_LENGTH" by simp
      show ?thesis
      proof (cases "upload_rejected_spec req")
        case True
        with run generate_3d_model_rejected [OF True sz, of env fs] show ?thesis by auto
      next
        case False
        obtain r outs1 evs1 where "upload_try env (form_fields req) (uuid4 env)
            (uuid4 env @ ''_'' @ secure_filename env (the (file_part req))) (outputs fs) = (r, outs1, evs1)"
          using prod_cases3 by blast
        from generate_3d_model_accepted [OF False sz refl this] run n show ?thesis
          by (cases "save_result env"; cases r) (auto simp: upload_error_body_def)
      qed
    qed
  next
    assume "\<exists>filename params r outs1 evs1.
            file_part req = Some filename \<and>
            parse_form_params env (form_fields req) = Inr params \<and>
            generation_steps env (uuid4 env @ ''_'' @ secure_filename env filename) params (uuid4 env)
              (py_lower (dict_get (form_fields req) ''output_format'' ''glb'')) (outputs fs) = (r, outs1, evs1) \<and>
            resp = (case r of Inr body \<Rightarrow> Json 200 body | Inl e \<Rightarrow> Json 500 (upload_error_body env e)) \<and>
            fs1 = fs\<lparr>uploads := uploads fs - {uuid4 env @ ''_'' @ secure_filename env filename}, outputs := outs1\<rparr> \<and>
            evs = Staged (uuid4 env @ ''_'' @ secure_filename env filename) # evs1 @
                  [Removed (uuid4 env @ ''_'' @ secure_filename env filename)]"
    then obtain filename params r outs1 evs1 where
      g: "generation_steps env (uuid4 env @ ''_'' @ secure_filename env filename) params (uuid4 env)
              (py_lower (dict_get (form_fields req) ''output_format'' ''glb'')) (outputs fs) = (r, outs1, evs1)" and
      e: "resp = (case r of Inr body \<Rightarrow> Json 200 body | Inl e \<Rightarrow> Json 500 (upload_error_body env e))"
      by blast
    from h generation_steps_glb_only [OF _ g] e show ?thesis
      by (cases r) (auto simp: upload_error_body_def)
  qed
next
  assume h: "data_get (VDict d) ''output_format'' (VStr ''glb'') = VStr v \<and> py_lower v \<noteq> ''obj'' \<and>
          generate_from_url env (Inr (VDict d)) fs = (resp, fs1, evs)"
  then show "generate_from_url env (Inr (VDict ((''output_format'', VStr ''glb'') # d))) fs
              = (resp, fs1, evs)"
    by (simp add: generate_from_url_glb)
  from h have run: "generate_from_url env (Inr (VDict d)) fs = (resp, fs1, evs)" by simp
  from generate_from_url_outcomes [OF run]
  show "\<forall>c. Convert c \<notin> set evs"
  proof
    assume "(\<forall>a. Predict a \<notin> set evs) \<and> (\<forall>c. Convert c \<notin> set evs) \<and> (\<forall>b. resp \<noteq> Json 200 b)"
    then show ?thesis by simp
  next
    assume "\<exists>d' url s r outs1 evs1.
            Inr (VDict d) = (Inr (VDict d') :: nat + 'f pyval) \<and> map_of d' ''image_url'' = Some (VStr url) \<and>
            http_get_fails env (VStr url) = None \<and> open_fails env = None \<and>
            data_get (VDict d') ''output_format'' (VStr ''glb'') = VStr s \<and>
            generation_steps env (uuid4 env @ ''.'' @ url_ext url) (parse_json_params (VDict d')) (uuid4 env)
              (py_lower s) (outputs fs) = (r, outs1, evs1) \<and>
            resp = (case r of Inr b \<Rightarrow> Json 200 b | Inl e \<Rightarrow> Json 500 (url_error_body env e)) \<and>
            fs1 = fs\<lparr>uploads := uploads fs - {uuid4 env @ ''.'' @ url_ext url}, outputs := outs1\<rparr> \<and>
            evs = Staged (uuid4 env @ ''.'' @ url_ext url) # evs1 @
                  [Removed (uuid4 env @ ''.'' @ url_ext url)]"
    then obtain url s r outs1 evs1 where
      s: "data_get (VDict d) ''output_format'' (VStr ''glb'') = VStr s" and
      g: "generation_steps env (uuid4 env @ ''.'' @ url_ext url) (parse_json_params (VDict d)) (uuid4 env)
              (py_lower s) (outputs fs) = (r, outs1, evs1)" and
      e: "evs = Staged (uuid4 env @ ''.'' @ url_ext url) # evs1 @
                  [Removed (uuid4 env @ ''.'' @ url_ext url)]"
      by auto
    from h s have "py_lower s \<noteq> ''obj''" by simp
    from generation_steps_glb_only [OF this g] e show ?thesis by simp
  qed
  show "\<forall>st b. resp = Json st b \<longrightarrow> map_of b ''obj_url'' = None"
  proof (cases "map_of d ''image_url''")
    case None
    with run show ?thesis by (auto simp: generate_from_url_def truthy_def contains_def split: if_splits)
  next
    case (Some image_url)
    obtain r ipo fs2 evs2 where
      t: "url_try env (VDict d) image_url (uuid4 env) fs = (r, ipo, fs2, evs2)"
      using prod_cases4 by blast
    from run t have f: "url_finish env (r, ipo, fs2, evs2) = (resp, fs1, evs)"
      by (simp add: generate_from_url_dict [OF Some])
    have nb: "\<forall>b. r = Inr b \<longrightarrow> map_of b ''obj_url'' = None"
      using url_try_outcomes [OF t]
    proof
      assume "(\<forall>a. Predict a \<notin> set evs2) \<and> (\<forall>c. Convert c \<notin> set evs2) \<and> (\<forall>b. r \<noteq> Inr b)"
      then show ?thesis by simp
    next
      assume "\<exists>url s outs1 evs1.
            image_url = VStr url \<and> http_get_fails env image_url = None \<and> open_fails env = None \<and>
            data_get (VDict d) ''output_format'' (VStr ''glb'') = VStr s \<and>
            generation_steps env (uuid4 env @ ''.'' @ url_ext url) (parse_json_params (VDict d)) (uuid4 env)
              (py_lower s) (outputs fs) = (r, outs1, evs1) \<and>
            ipo = Some (uuid4 env @ ''.'' @ url_ext url) \<and>
            fs2 = fs\<lparr>uploads := insert (uuid4 env @ ''.'' @ url_ext url) (uploads fs), outputs := outs1\<rparr> \<and>
            evs2 = Staged (uuid4 env @ ''.'' @ url_ext url) # evs1"
      then obtain url s outs1 evs1 where
        s: "data_get (VDict d) ''output_format'' (VStr ''glb'') = VStr s" and
        g: "generation_steps env (uuid4 env @ ''.'' @ url_ext url) (parse_json_params (VDict d)) (uuid4 env)
              (py_lower s) (outputs fs) = (r, outs1, evs1)"
        by blast
      from h s have "py_lower s \<noteq> ''obj''" by simp
      from generation_steps_glb_only [OF this g] show ?thesis by simp
    qed
    show ?thesis
    proof (cases ipo)
      case None
      with f show ?thesis by (auto simp: url_finish_unbound)
    next
      case (Some p)
      with f nb show ?thesis by (cases r) (auto simp: url_finish_bound url_error_body_def)
    qed
  qed
qed

text \<open>The claim at the upload that asks for \<open>stl\<close> and at the URL request that asks for \<open>STL\<close>.\<close>

theorem unrecognised_format_glb_only_witness:
  "(\<forall>c. Convert c \<notin> set (snd (snd (generate_3d_model example_env example_upload_stl empty_fs)))) \<and>
   (\<forall>c. Convert c \<notin> set (snd (snd (generate_from_url example_env (Inr (VDict example_url_fields)) empty_fs))))"
proof -
  have r: "generate_3d_model example_env example_upload_stl empty_fs =
             (fst (generate_3d_model example_env example_upload_stl empty_fs),
              fst (snd (generate_3d_model example_env example_upload_stl empty_fs)),
              snd (snd (generate_3d_model example_env example_upload_stl empty_fs)))"
    by simp
  have f: "py_lower (dict_get (form_fields example_upload_stl) ''output_format'' ''glb'') \<noteq> ''obj''"
    by (simp add: example_upload_stl_def dict_get_def py_lower_def lower_char_def)
  note 1 = unrecognised_format_glb_only [THEN conjunct1, THEN mp, OF conjI [OF f r], THEN conjunct1]
  have r': "generate_from_url example_env (Inr (VDict example_url_fields)) empty_fs =
             (fst (generate_from_url example_env (Inr (VDict example_url_fields)) empty_fs),
              fst (snd (generate_from_url example_env (Inr (VDict example_url_fields)) empty_fs)),
              snd (snd (generate_from_url example_env (Inr (VDict example_url_fields)) empty_fs)))"
    by simp
  have f1: "data_get (VDict example_url_fields) ''output_format'' (VStr ''glb'') = VStr ''STL''"
    by (simp add: example_url_fields_def data_get_def dict_get_def)
  have f2: "py_lower ''STL'' \<noteq> ''obj''"
    by (simp add: py_lower_def lower_char_def)
  note 2 = unrecognised_format_glb_only [THEN conjunct2, THEN mp, OF conjI [OF f1 conjI [OF f2 r']],
      THEN conjunct1]
  from 1 2 show ?thesis by (intro conjI)
qed

end
